theory Spec2Isabelle
  imports Complex_Main "HOL-Library.Word"
begin

section \<open>Galaxy catalogue utilities: numeric coercion and the quality filter\<close>

text \<open>
  The repository holds a handful of pandas functions. Two of them carry logic:
  \<^item> \<open>safe_to_numeric\<close> (\<^verbatim>\<open>bootcamp_session_4/src/mymodule.py\<close>, \<^verbatim>\<open>my_module.py\<close>):
    \<^verbatim>\<open>try: return pd.to_numeric(col, errors="raise")  except Exception: return col\<close>;
  \<^item> \<open>filter_data\<close> (\<^verbatim>\<open>bootcamp_session_4/src/mymodule.py\<close>, \<^verbatim>\<open>Idea/module.py\<close>) and its
    two copies \<open>clean_data\<close> (\<^verbatim>\<open>my_module.py\<close>, \<^verbatim>\<open>mymodule.py\<close>): a boolean mask built from
    column comparisons, then \<^verbatim>\<open>df[mask][cols_to_keep]\<close>.

  The functions are embedded as they are written, over a model of the pandas operations
  they call: column lookup, comparison and arithmetic of a column with a Python scalar,
  the element-wise \<^verbatim>\<open>&\<close> and \<^verbatim>\<open>|\<close>, row selection by a boolean mask and column selection
  by a list of labels. Every exception of those operations is a value \<open>Inl e\<close>.
  The two files that define \<open>filter_data\<close> hold the same text, and so do the two that
  define \<open>safe_to_numeric\<close>; each is embedded once. The functions that only talk to a
  remote service (\<open>query_tap\<close>, \<open>load_TAP_data\<close>, \<open>retrieve_img\<close>, \<open>get_image\<close>) are
  not modelled.
\<close>

subsection \<open>float64\<close>

text \<open>
  A float64 is NaN, an infinity, or a finite binary64 number, kept as the rational it
  denotes. The two zeros are identified: nothing in the modelled code tells them apart
  (the only divisor is the literal \<^verbatim>\<open>0.4\<close>). Arithmetic computes the exact rational result
  and rounds it to the nearest binary64 number, ties to even, as IEEE 754 prescribes.
\<close>

datatype float64 = Finite rat | PosInf | NegInf | NaN

text \<open>Number of binary digits of a positive integer.\<close>

function bits :: "int \<Rightarrow> int" where
  "bits n = (if n \<le> 0 then 0 else 1 + bits (n div 2))"
  by pat_completeness auto
termination
  by (relation "measure nat") auto

declare bits.simps [simp del]

definition pow2 :: "int \<Rightarrow> rat" where
  "pow2 e = (if 0 \<le> e then 2 ^ nat e else 1 / 2 ^ nat (- e))"

text \<open>For \<open>0 < a\<close>, the exponent \<open>e\<close> with \<open>2\<^sup>e \<le> a < 2\<^sup>e\<^sup>+\<^sup>1\<close>.\<close>

definition floor_log2 :: "rat \<Rightarrow> int" where
  "floor_log2 a =
     (if 1 \<le> a then bits \<lfloor>a\<rfloor> - 1
      else let k = bits \<lfloor>1 / a\<rfloor>
           in if a = pow2 (1 - k) then 1 - k else - k)"

definition round_half_even :: "rat \<Rightarrow> int" where
  "round_half_even x =
     (let f = \<lfloor>x\<rfloor>; d = x - of_int f
      in if d < 1 / 2 then f
         else if 1 / 2 < d then f + 1
         else if even f then f else f + 1)"

text \<open>
  Rounding to binary64: 53 significant bits, the least exponent of the last bit is
  \<open>-1074\<close> (subnormal numbers), and a result of \<open>2\<^sup>1\<^sup>0\<^sup>2\<^sup>4\<close> or more overflows to an infinity.
\<close>

definition round_double :: "rat \<Rightarrow> float64" where
  "round_double q =
     (if q = 0 then Finite 0
      else let a = \<bar>q\<bar>; e = floor_log2 a
           in if 1023 < e then (if 0 < q then PosInf else NegInf)
              else let ex = max e (- 1022) - 52;
                       m = round_half_even (a / pow2 ex)
                   in if ex = 971 \<and> m = 2 ^ 53 then (if 0 < q then PosInf else NegInf)
                      else Finite ((if 0 < q then 1 else - 1) * of_int m * pow2 ex))"

text \<open>A Python float literal such as \<^verbatim>\<open>0.05\<close> is the binary64 number nearest to the decimal.\<close>

definition float_literal :: "rat \<Rightarrow> float64" where
  "float_literal q = round_double q"

text \<open>
  An int64 element is converted to float64 by rounding; every int64 is within range.
\<close>

definition int64_to_float :: "64 word \<Rightarrow> float64" where
  "int64_to_float w = round_double (of_int (sint w))"

fun f_mul :: "float64 \<Rightarrow> float64 \<Rightarrow> float64" where
  "f_mul NaN _ = NaN"
| "f_mul _ NaN = NaN"
| "f_mul (Finite a) (Finite b) = round_double (a * b)"
| "f_mul (Finite a) PosInf = (if a = 0 then NaN else if 0 < a then PosInf else NegInf)"
| "f_mul (Finite a) NegInf = (if a = 0 then NaN else if 0 < a then NegInf else PosInf)"
| "f_mul PosInf (Finite b) = (if b = 0 then NaN else if 0 < b then PosInf else NegInf)"
| "f_mul NegInf (Finite b) = (if b = 0 then NaN else if 0 < b then NegInf else PosInf)"
| "f_mul PosInf PosInf = PosInf"
| "f_mul PosInf NegInf = NegInf"
| "f_mul NegInf PosInf = NegInf"
| "f_mul NegInf NegInf = PosInf"

text \<open>Division of arrays does not raise on a zero divisor: it yields an infinity or NaN.\<close>

fun f_div :: "float64 \<Rightarrow> float64 \<Rightarrow> float64" where
  "f_div NaN _ = NaN"
| "f_div _ NaN = NaN"
| "f_div (Finite a) (Finite b) =
     (if b = 0 then (if a = 0 then NaN else if 0 < a then PosInf else NegInf)
      else round_double (a / b))"
| "f_div (Finite a) PosInf = Finite 0"
| "f_div (Finite a) NegInf = Finite 0"
| "f_div PosInf (Finite b) = (if b < 0 then NegInf else PosInf)"
| "f_div NegInf (Finite b) = (if b < 0 then PosInf else NegInf)"
| "f_div PosInf PosInf = NaN"
| "f_div PosInf NegInf = NaN"
| "f_div NegInf PosInf = NaN"
| "f_div NegInf NegInf = NaN"

text \<open>Comparisons: every comparison with NaN is false.\<close>

fun f_lt :: "float64 \<Rightarrow> float64 \<Rightarrow> bool" where
  "f_lt NaN _ = False"
| "f_lt _ NaN = False"
| "f_lt (Finite a) (Finite b) = (a < b)"
| "f_lt (Finite a) PosInf = True"
| "f_lt (Finite a) NegInf = False"
| "f_lt PosInf _ = False"
| "f_lt NegInf (Finite b) = True"
| "f_lt NegInf PosInf = True"
| "f_lt NegInf NegInf = False"

fun f_le :: "float64 \<Rightarrow> float64 \<Rightarrow> bool" where
  "f_le NaN _ = False"
| "f_le _ NaN = False"
| "f_le (Finite a) (Finite b) = (a \<le> b)"
| "f_le (Finite a) PosInf = True"
| "f_le (Finite a) NegInf = False"
| "f_le PosInf (Finite b) = False"
| "f_le PosInf PosInf = True"
| "f_le PosInf NegInf = False"
| "f_le NegInf _ = True"

definition f_gt :: "float64 \<Rightarrow> float64 \<Rightarrow> bool" where
  "f_gt a b = f_lt b a"

definition f_ge :: "float64 \<Rightarrow> float64 \<Rightarrow> bool" where
  "f_ge a b = f_le b a"

subsection \<open>Columns and tables\<close>

text \<open>
  An element of a column is a float64, an int64 (a 64-bit word read as two's complement),
  or a Python string: the three kinds of value that \<open>safe_to_numeric\<close> produces or leaves
  behind. A \<open>Series\<close> is the list of its elements; a \<open>DataFrame\<close> has a row index and
  named columns in order.
\<close>

datatype cell = F64 float64 | I64 "64 word" | Str string

type_synonym series = "cell list"

record dataframe =
  index :: "cell list"
  columns :: "(string \<times> series) list"

definition nrows :: "dataframe \<Rightarrow> nat" where
  "nrows df = length (index df)"

text \<open>A DataFrame has distinct column labels here, and every column has one element per row.\<close>

definition wf_df :: "dataframe \<Rightarrow> bool" where
  "wf_df df \<longleftrightarrow>
     distinct (map fst (columns df)) \<and>
     list_all (\<lambda>c. length (snd c) = nrows df) (columns df)"

datatype error = KeyError "string list" | TypeError | ValueError | OverflowError

subsection \<open>Exceptions as values\<close>

definition bindE :: "error + 'a \<Rightarrow> ('a \<Rightarrow> error + 'b) \<Rightarrow> error + 'b" where
  "bindE m f = (case m of Inl e \<Rightarrow> Inl e | Inr x \<Rightarrow> f x)"

text \<open>A binary operator: the left operand is evaluated first, then the right one.\<close>

definition lift2 :: "('a \<Rightarrow> 'b \<Rightarrow> 'c) \<Rightarrow> error + 'a \<Rightarrow> error + 'b \<Rightarrow> error + 'c" where
  "lift2 f a b = bindE a (\<lambda>x. bindE b (\<lambda>y. Inr (f x y)))"

text \<open>An element-wise operation stops at the first element that raises.\<close>

fun mapE :: "('a \<Rightarrow> error + 'b) \<Rightarrow> 'a list \<Rightarrow> error + 'b list" where
  "mapE f [] = Inr []"
| "mapE f (x # xs) = bindE (f x) (\<lambda>y. bindE (mapE f xs) (\<lambda>ys. Inr (y # ys)))"

subsection \<open>Element-wise operations with a Python scalar\<close>

text \<open>
  A Python int has no bound. Where it meets a float64 it is converted as \<^verbatim>\<open>float(k)\<close>
  does: rounded to the nearest float64, and \<^verbatim>\<open>OverflowError\<close> when the rounded value is
  \<open>2\<^sup>1\<^sup>0\<^sup>2\<^sup>4\<close> or more in magnitude. \<open>int_fits_float64 k\<close> says that \<open>k\<close> can be
  converted.
\<close>

definition int_fits_float64 :: "int \<Rightarrow> bool" where
  "int_fits_float64 k = (case round_double (of_int k) of Finite q \<Rightarrow> True | _ \<Rightarrow> False)"

definition float_of_int :: "int \<Rightarrow> error + float64" where
  "float_of_int k =
     (if int_fits_float64 k then Inr (round_double (of_int k)) else Inl OverflowError)"

text \<open>
  \<^verbatim>\<open>x > k\<close> and \<^verbatim>\<open>x < k\<close> for a Python int \<open>k\<close>: a float64 element is compared with \<open>k\<close>
  converted to float64, and the conversion raises when \<open>k\<close> is out of range; an int64
  element is compared as an integer; a string raises \<^verbatim>\<open>TypeError\<close>. The operations are
  those of the elements: a column is the list of its elements and carries no element
  type of its own, so a column without elements behaves as an empty column of Python
  objects does, and every operation on it returns the empty column.
\<close>

fun cell_gt_int :: "cell \<Rightarrow> int \<Rightarrow> error + bool" where
  "cell_gt_int (F64 x) k = bindE (float_of_int k) (\<lambda>y. Inr (f_gt x y))"
| "cell_gt_int (I64 w) k = Inr (k < sint w)"
| "cell_gt_int (Str s) k = Inl TypeError"

fun cell_lt_int :: "cell \<Rightarrow> int \<Rightarrow> error + bool" where
  "cell_lt_int (F64 x) k = bindE (float_of_int k) (\<lambda>y. Inr (f_lt x y))"
| "cell_lt_int (I64 w) k = Inr (sint w < k)"
| "cell_lt_int (Str s) k = Inl TypeError"

text \<open>
  \<^verbatim>\<open>x < c\<close> and \<^verbatim>\<open>x >= c\<close> for a Python float \<open>c\<close>: an int64 element is converted to
  float64 first.
\<close>

fun cell_lt_float :: "cell \<Rightarrow> float64 \<Rightarrow> error + bool" where
  "cell_lt_float (F64 x) c = Inr (f_lt x c)"
| "cell_lt_float (I64 w) c = Inr (f_lt (int64_to_float w) c)"
| "cell_lt_float (Str s) c = Inl TypeError"

fun cell_ge_float :: "cell \<Rightarrow> float64 \<Rightarrow> error + bool" where
  "cell_ge_float (F64 x) c = Inr (f_ge x c)"
| "cell_ge_float (I64 w) c = Inr (f_ge (int64_to_float w) c)"
| "cell_ge_float (Str s) c = Inl TypeError"

text \<open>
  \<^verbatim>\<open>x * k\<close> for a Python int \<open>k\<close> (the code has \<open>k = 2\<close> only): a float64 element is
  multiplied by \<open>k\<close> converted to float64; int64 arithmetic wraps around; a string is
  repeated \<open>k\<close> times.
\<close>

fun cell_mul_int :: "cell \<Rightarrow> int \<Rightarrow> error + cell" where
  "cell_mul_int (F64 x) k = bindE (float_of_int k) (\<lambda>y. Inr (F64 (f_mul x y)))"
| "cell_mul_int (I64 w) k = Inr (I64 (w * word_of_int k))"
| "cell_mul_int (Str s) k = Inr (Str (concat (replicate (nat k) s)))"

text \<open>\<^verbatim>\<open>x * c\<close> and \<^verbatim>\<open>x / c\<close> for a Python float \<open>c\<close>: the result is a float64.\<close>

fun cell_mul_float :: "cell \<Rightarrow> float64 \<Rightarrow> error + cell" where
  "cell_mul_float (F64 x) c = Inr (F64 (f_mul x c))"
| "cell_mul_float (I64 w) c = Inr (F64 (f_mul (int64_to_float w) c))"
| "cell_mul_float (Str s) c = Inl TypeError"

fun cell_div_float :: "cell \<Rightarrow> float64 \<Rightarrow> error + cell" where
  "cell_div_float (F64 x) c = Inr (F64 (f_div x c))"
| "cell_div_float (I64 w) c = Inr (F64 (f_div (int64_to_float w) c))"
| "cell_div_float (Str s) c = Inl TypeError"

subsection \<open>Operations on columns and tables\<close>

text \<open>\<^verbatim>\<open>df["name"]\<close>: a missing label raises \<^verbatim>\<open>KeyError\<close>.\<close>

definition getitem :: "dataframe \<Rightarrow> string \<Rightarrow> error + series" where
  "getitem df name =
     (case map_of (columns df) name of None \<Rightarrow> Inl (KeyError [name]) | Some s \<Rightarrow> Inr s)"

definition gt_int :: "error + series \<Rightarrow> int \<Rightarrow> error + bool list" where
  "gt_int s k = bindE s (mapE (\<lambda>c. cell_gt_int c k))"

definition lt_int :: "error + series \<Rightarrow> int \<Rightarrow> error + bool list" where
  "lt_int s k = bindE s (mapE (\<lambda>c. cell_lt_int c k))"

definition lt_float :: "error + series \<Rightarrow> float64 \<Rightarrow> error + bool list" where
  "lt_float s c = bindE s (mapE (\<lambda>x. cell_lt_float x c))"

definition ge_float :: "error + series \<Rightarrow> float64 \<Rightarrow> error + bool list" where
  "ge_float s c = bindE s (mapE (\<lambda>x. cell_ge_float x c))"

definition mul_int :: "error + series \<Rightarrow> int \<Rightarrow> error + series" where
  "mul_int s k = bindE s (mapE (\<lambda>c. cell_mul_int c k))"

definition mul_float :: "error + series \<Rightarrow> float64 \<Rightarrow> error + series" where
  "mul_float s c = bindE s (mapE (\<lambda>x. cell_mul_float x c))"

definition div_float :: "error + series \<Rightarrow> float64 \<Rightarrow> error + series" where
  "div_float s c = bindE s (mapE (\<lambda>x. cell_div_float x c))"

text \<open>\<^verbatim>\<open>a & b\<close> and \<^verbatim>\<open>a | b\<close> on boolean columns of one table.\<close>

definition and_mask :: "error + bool list \<Rightarrow> error + bool list \<Rightarrow> error + bool list" where
  "and_mask = lift2 (map2 (\<and>))"

definition or_mask :: "error + bool list \<Rightarrow> error + bool list \<Rightarrow> error + bool list" where
  "or_mask = lift2 (map2 (\<or>))"

text \<open>The elements of a list at the positions where the mask is true.\<close>

definition pick :: "bool list \<Rightarrow> 'a list \<Rightarrow> 'a list" where
  "pick m xs = map snd (filter fst (zip m xs))"

text \<open>\<^verbatim>\<open>df[mask]\<close>: the rows where the mask is true; a mask of the wrong length raises.\<close>

definition getitem_mask :: "dataframe \<Rightarrow> bool list \<Rightarrow> error + dataframe" where
  "getitem_mask df m =
     (if length m = nrows df
      then Inr \<lparr>index = pick m (index df),
                columns = map (\<lambda>c. (fst c, pick m (snd c))) (columns df)\<rparr>
      else Inl ValueError)"

text \<open>
  \<^verbatim>\<open>df[labels]\<close>: the listed columns in the listed order; \<^verbatim>\<open>KeyError\<close> names the labels
  that are missing.
\<close>

definition getitem_list :: "dataframe \<Rightarrow> string list \<Rightarrow> error + dataframe" where
  "getitem_list df names =
     (let missing = filter (\<lambda>n. map_of (columns df) n = None) names
      in if missing = []
         then Inr \<lparr>index = index df,
                   columns = map (\<lambda>n. (n, the (map_of (columns df) n))) names\<rparr>
         else Inl (KeyError missing))"

subsection \<open>The quality filter\<close>

text \<open>
  \<^verbatim>\<open>cols_to_keep\<close> of \<open>filter_data\<close> and \<open>clean_data\<close>: eight fixed labels, the two radii,
  and \<^verbatim>\<open>[f"modelMag_{f}" for f in "ugriz"] + [f"extinction_{f}" for f in "ugriz"]\<close>.
\<close>

definition cols_to_keep :: "string list" where
  "cols_to_keep =
     [''specobjid'', ''objid'', ''ra'', ''dec'', ''p_el_debiased'', ''p_cs_debiased'',
      ''spiral'', ''elliptical'']
     @ [''petroR50_r'', ''petroR90_r'']
     @ map (\<lambda>f. ''modelMag_'' @ [f]) ''ugriz''
     @ map (\<lambda>f. ''extinction_'' @ [f]) ''ugriz''"

text \<open>
  The mask of \<open>filter_data\<close>, operand by operand in the order Python evaluates them.
  \<open>confidence\<close> is a Python float, \<open>size_range\<close> a pair of Python ints.
\<close>

definition filter_data_mask :: "dataframe \<Rightarrow> float64 \<Rightarrow> int \<times> int \<Rightarrow> error + bool list" where
  "filter_data_mask df confidence size_range =
     and_mask (and_mask (and_mask (and_mask (and_mask (and_mask (and_mask (and_mask
     (and_mask (and_mask (and_mask (and_mask
       (gt_int (getitem df ''modelMag_u'') (- 30))
       (gt_int (getitem df ''modelMag_g'') (- 30)))
       (gt_int (getitem df ''modelMag_r'') (- 30)))
       (gt_int (getitem df ''modelMag_i'') (- 30)))
       (gt_int (getitem df ''modelMag_z'') (- 30)))
       (lt_float (getitem df ''modelMagErr_u'') (float_literal (5 / 10))))
       (lt_float (getitem df ''modelMagErr_g'') (float_literal (5 / 100))))
       (lt_float (getitem df ''modelMagErr_r'') (float_literal (5 / 100))))
       (lt_float (getitem df ''modelMagErr_i'') (float_literal (5 / 100))))
       (lt_float (getitem df ''modelMagErr_z'') (float_literal (1 / 10))))
       (or_mask (ge_float (getitem df ''p_cs_debiased'') confidence)
                (ge_float (getitem df ''p_el_debiased'') confidence)))
       (gt_int (div_float (mul_int (getitem df ''petroR90_r'') 2) (float_literal (4 / 10)))
               (fst size_range)))
       (lt_int (div_float (mul_float (mul_int (getitem df ''petroR90_r'') 2)
                                     (float_literal (15 / 10)))
                          (float_literal (4 / 10)))
               (snd size_range))"

text \<open>\<^verbatim>\<open>return df[mask][cols_to_keep]\<close>\<close>

definition filter_data :: "dataframe \<Rightarrow> float64 \<Rightarrow> int \<times> int \<Rightarrow> error + dataframe" where
  "filter_data df confidence size_range =
     bindE (filter_data_mask df confidence size_range) (\<lambda>mask.
     bindE (getitem_mask df mask) (\<lambda>selected.
     getitem_list selected cols_to_keep))"

text \<open>
  The two size operands of the mask for one element \<open>r\<close> of \<^verbatim>\<open>petroR90_r\<close>:
  \<^verbatim>\<open>r * 2 / 0.4 > size_range[0]\<close> and \<^verbatim>\<open>r * 2 * 1.5 / 0.4 < size_range[1]\<close>, each
  evaluated from left to right.
\<close>

definition size_lower :: "cell \<Rightarrow> int \<Rightarrow> error + bool" where
  "size_lower r lo =
     bindE (bindE (cell_mul_int r 2) (\<lambda>x. cell_div_float x (float_literal (4 / 10))))
           (\<lambda>d. cell_gt_int d lo)"

definition size_upper :: "cell \<Rightarrow> int \<Rightarrow> error + bool" where
  "size_upper r hi =
     bindE (bindE (bindE (cell_mul_int r 2) (\<lambda>x. cell_mul_float x (float_literal (15 / 10))))
                  (\<lambda>x. cell_div_float x (float_literal (4 / 10))))
           (\<lambda>d. cell_lt_int d hi)"

subsection \<open>The copies of the filter: \<open>clean_data\<close>\<close>

text \<open>
  \<open>clean_data\<close> of \<^verbatim>\<open>my_module.py\<close>: the threshold \<^verbatim>\<open>0.9\<close> and the bounds \<^verbatim>\<open>64\<close> and
  \<^verbatim>\<open>20\<close> are literals, and the upper size bound is tested before the lower one.
\<close>

definition clean_data_mask_my_module :: "dataframe \<Rightarrow> error + bool list" where
  "clean_data_mask_my_module df =
     and_mask (and_mask (and_mask (and_mask (and_mask (and_mask (and_mask (and_mask
     (and_mask (and_mask (and_mask (and_mask
       (gt_int (getitem df ''modelMag_u'') (- 30))
       (gt_int (getitem df ''modelMag_g'') (- 30)))
       (gt_int (getitem df ''modelMag_r'') (- 30)))
       (gt_int (getitem df ''modelMag_i'') (- 30)))
       (gt_int (getitem df ''modelMag_z'') (- 30)))
       (lt_float (getitem df ''modelMagErr_u'') (float_literal (5 / 10))))
       (lt_float (getitem df ''modelMagErr_g'') (float_literal (5 / 100))))
       (lt_float (getitem df ''modelMagErr_r'') (float_literal (5 / 100))))
       (lt_float (getitem df ''modelMagErr_i'') (float_literal (5 / 100))))
       (lt_float (getitem df ''modelMagErr_z'') (float_literal (1 / 10))))
       (or_mask (ge_float (getitem df ''p_cs_debiased'') (float_literal (9 / 10)))
                (ge_float (getitem df ''p_el_debiased'') (float_literal (9 / 10)))))
       (lt_int (div_float (mul_float (mul_int (getitem df ''petroR90_r'') 2)
                                     (float_literal (15 / 10)))
                          (float_literal (4 / 10)))
               64))
       (gt_int (div_float (mul_int (getitem df ''petroR90_r'') 2) (float_literal (4 / 10)))
               20)"

definition clean_data_my_module :: "dataframe \<Rightarrow> error + dataframe" where
  "clean_data_my_module df =
     bindE (clean_data_mask_my_module df) (\<lambda>mask.
     bindE (getitem_mask df mask) (\<lambda>selected.
     getitem_list selected cols_to_keep))"

text \<open>\<open>clean_data\<close> of \<^verbatim>\<open>mymodule.py\<close>: the same statements once more.\<close>

definition clean_data_mask_mymodule :: "dataframe \<Rightarrow> error + bool list" where
  "clean_data_mask_mymodule df =
     and_mask (and_mask (and_mask (and_mask (and_mask (and_mask (and_mask (and_mask
     (and_mask (and_mask (and_mask (and_mask
       (gt_int (getitem df ''modelMag_u'') (- 30))
       (gt_int (getitem df ''modelMag_g'') (- 30)))
       (gt_int (getitem df ''modelMag_r'') (- 30)))
       (gt_int (getitem df ''modelMag_i'') (- 30)))
       (gt_int (getitem df ''modelMag_z'') (- 30)))
       (lt_float (getitem df ''modelMagErr_u'') (float_literal (5 / 10))))
       (lt_float (getitem df ''modelMagErr_g'') (float_literal (5 / 100))))
       (lt_float (getitem df ''modelMagErr_r'') (float_literal (5 / 100))))
       (lt_float (getitem df ''modelMagErr_i'') (float_literal (5 / 100))))
       (lt_float (getitem df ''modelMagErr_z'') (float_literal (1 / 10))))
       (or_mask (ge_float (getitem df ''p_cs_debiased'') (float_literal (9 / 10)))
                (ge_float (getitem df ''p_el_debiased'') (float_literal (9 / 10)))))
       (lt_int (div_float (mul_float (mul_int (getitem df ''petroR90_r'') 2)
                                     (float_literal (15 / 10)))
                          (float_literal (4 / 10)))
               64))
       (gt_int (div_float (mul_int (getitem df ''petroR90_r'') 2) (float_literal (4 / 10)))
               20)"

definition clean_data_mymodule :: "dataframe \<Rightarrow> error + dataframe" where
  "clean_data_mymodule df =
     bindE (clean_data_mask_mymodule df) (\<lambda>mask.
     bindE (getitem_mask df mask) (\<lambda>selected.
     getitem_list selected cols_to_keep))"

subsection \<open>Numeric coercion\<close>

text \<open>
  \<^verbatim>\<open>pd.to_numeric(col, errors="raise")\<close> parses every element; a single element that does
  not parse raises. The result is an int64 column when every element is an integer and a
  float64 column otherwise. How pandas reads one string is not part of the repository:
  it is the parameter \<open>parse\<close>, which yields an int64, a float64, or nothing. An element
  that is a number already needs no parsing.

  The values of \<open>parse\<close> are those of the \<open>cell\<close> type. An integer beyond the int64 range,
  which pandas keeps as a uint64 or as a Python int in a column of objects, is not among
  them: what \<open>safe_to_numeric\<close> returns for such a string is not described by this model.
  The statements below about \<open>safe_to_numeric\<close> (that it never raises, that a column with
  an unparseable element comes back unchanged, that the length is kept) do not depend on
  which numbers come out.
\<close>

datatype num = NInt "64 word" | NFloat float64

fun parse_cell :: "(string \<Rightarrow> num option) \<Rightarrow> cell \<Rightarrow> num option" where
  "parse_cell parse (F64 x) = Some (NFloat x)"
| "parse_cell parse (I64 w) = Some (NInt w)"
| "parse_cell parse (Str s) = parse s"

fun is_int :: "num \<Rightarrow> bool" where
  "is_int (NInt w) = True"
| "is_int (NFloat x) = False"

fun int_cell :: "num \<Rightarrow> cell" where
  "int_cell (NInt w) = I64 w"
| "int_cell (NFloat x) = F64 x"

fun float_cell :: "num \<Rightarrow> cell" where
  "float_cell (NInt w) = F64 (int64_to_float w)"
| "float_cell (NFloat x) = F64 x"

definition to_numeric :: "(string \<Rightarrow> num option) \<Rightarrow> series \<Rightarrow> error + series" where
  "to_numeric parse col =
     bindE (mapE (\<lambda>c. case parse_cell parse c of None \<Rightarrow> Inl ValueError | Some n \<Rightarrow> Inr n) col)
       (\<lambda>ns. Inr (if list_all is_int ns then map int_cell ns else map float_cell ns))"

text \<open>
  \<^verbatim>\<open>try: return pd.to_numeric(col, errors="raise")\<close>
  \<^verbatim>\<open>except Exception: return col\<close>
\<close>

definition safe_to_numeric :: "(string \<Rightarrow> num option) \<Rightarrow> series \<Rightarrow> error + series" where
  "safe_to_numeric parse col =
     (case to_numeric parse col of Inr r \<Rightarrow> Inr r | Inl e \<Rightarrow> Inr col)"

subsection \<open>Notions used in the statements\<close>

text \<open>A check on an element holds when it returns \<^verbatim>\<open>True\<close>.\<close>

definition holds :: "error + bool \<Rightarrow> bool" where
  "holds r \<longleftrightarrow> r = Inr True"

text \<open>The column with a given label (empty when the label is missing) and its elements.\<close>

definition col :: "dataframe \<Rightarrow> string \<Rightarrow> series" where
  "col df name = (case map_of (columns df) name of None \<Rightarrow> [] | Some s \<Rightarrow> s)"

definition cell_at :: "dataframe \<Rightarrow> string \<Rightarrow> nat \<Rightarrow> cell" where
  "cell_at df name i = col df name ! i"

definition has_column :: "dataframe \<Rightarrow> string \<Rightarrow> bool" where
  "has_column df name \<longleftrightarrow> map_of (columns df) name \<noteq> None"

text \<open>The columns the mask reads, in the order it reads them, and all required columns.\<close>

definition mask_columns :: "string list" where
  "mask_columns =
     [''modelMag_u'', ''modelMag_g'', ''modelMag_r'', ''modelMag_i'', ''modelMag_z'',
      ''modelMagErr_u'', ''modelMagErr_g'', ''modelMagErr_r'', ''modelMagErr_i'',
      ''modelMagErr_z'', ''p_cs_debiased'', ''p_el_debiased'', ''petroR90_r'']"

definition required_columns :: "string list" where
  "required_columns = mask_columns @ cols_to_keep"

fun is_number :: "cell \<Rightarrow> bool" where
  "is_number (F64 x) = True"
| "is_number (I64 w) = True"
| "is_number (Str s) = False"

text \<open>Every column that the mask reads and that is present holds numbers only.\<close>

definition mask_columns_numeric :: "dataframe \<Rightarrow> bool" where
  "mask_columns_numeric df \<longleftrightarrow>
     list_all (\<lambda>n. list_all is_number (col df n)) mask_columns"

text \<open>A probability: a number between 0 and 1.\<close>

fun in_unit_interval :: "cell \<Rightarrow> bool" where
  "in_unit_interval (F64 (Finite q)) = (0 \<le> q \<and> q \<le> 1)"
| "in_unit_interval (F64 _) = False"
| "in_unit_interval (I64 w) = (0 \<le> sint w \<and> sint w \<le> 1)"
| "in_unit_interval (Str s) = False"

text \<open>The rows of a table at the positions \<open>ps\<close>, restricted to the kept columns.\<close>

definition rows_at :: "dataframe \<Rightarrow> nat list \<Rightarrow> dataframe" where
  "rows_at df ps =
     \<lparr>index = map (nth (index df)) ps,
      columns = map (\<lambda>n. (n, map (nth (col df n)) ps)) cols_to_keep\<rparr>"

text \<open>The positions at which a mask is true, in increasing order.\<close>

definition positions :: "bool list \<Rightarrow> nat list" where
  "positions m = filter (nth m) [0..<length m]"

text \<open>
  The mask for one row \<open>i\<close>: the checks of the thirteen operands on the elements of
  that row, combined as the mask combines the columns.
\<close>

definition row_check :: "dataframe \<Rightarrow> float64 \<Rightarrow> int \<times> int \<Rightarrow> nat \<Rightarrow> error + bool" where
  "row_check df confidence size_range i =
     lift2 (\<and>) (lift2 (\<and>) (lift2 (\<and>) (lift2 (\<and>) (lift2 (\<and>) (lift2 (\<and>) (lift2 (\<and>) (lift2 (\<and>)
     (lift2 (\<and>) (lift2 (\<and>) (lift2 (\<and>) (lift2 (\<and>)
       (cell_gt_int (cell_at df ''modelMag_u'' i) (- 30))
       (cell_gt_int (cell_at df ''modelMag_g'' i) (- 30)))
       (cell_gt_int (cell_at df ''modelMag_r'' i) (- 30)))
       (cell_gt_int (cell_at df ''modelMag_i'' i) (- 30)))
       (cell_gt_int (cell_at df ''modelMag_z'' i) (- 30)))
       (cell_lt_float (cell_at df ''modelMagErr_u'' i) (float_literal (5 / 10))))
       (cell_lt_float (cell_at df ''modelMagErr_g'' i) (float_literal (5 / 100))))
       (cell_lt_float (cell_at df ''modelMagErr_r'' i) (float_literal (5 / 100))))
       (cell_lt_float (cell_at df ''modelMagErr_i'' i) (float_literal (5 / 100))))
       (cell_lt_float (cell_at df ''modelMagErr_z'' i) (float_literal (1 / 10))))
       (lift2 (\<or>) (cell_ge_float (cell_at df ''p_cs_debiased'' i) confidence)
                  (cell_ge_float (cell_at df ''p_el_debiased'' i) confidence)))
       (size_lower (cell_at df ''petroR90_r'' i) (fst size_range)))
       (size_upper (cell_at df ''petroR90_r'' i) (snd size_range))"

text \<open>
  A column expression \<open>a\<close> computes the row-wise check \<open>P\<close> on \<open>n\<close> rows: it returns the
  list \<open>bs\<close> exactly when \<open>P\<close> returns \<open>bs ! i\<close> on every row \<open>i\<close>.
\<close>

definition computes :: "nat \<Rightarrow> (nat \<Rightarrow> error + bool) \<Rightarrow> error + bool list \<Rightarrow> bool" where
  "computes n P a \<longleftrightarrow>
     (\<forall>bs. a = Inr bs \<longleftrightarrow> length bs = n \<and> (\<forall>i<n. P i = Inr (bs ! i)))"

text \<open>
  An operand of the mask is in order when it returns a mask or reports a missing column
  of the mask.
\<close>

definition key_or_ok :: "dataframe \<Rightarrow> error + bool list \<Rightarrow> bool" where
  "key_or_ok df a \<longleftrightarrow>
     (\<exists>bs. a = Inr bs) \<or> (\<exists>n\<in>set mask_columns. \<not> has_column df n \<and> a = Inl (KeyError [n]))"

text \<open>
  The upper size bound as the specification words it: with the diameter
  \<^verbatim>\<open>d = petroR90_r * 2 / 0.4\<close>, the test \<^verbatim>\<open>d * 1.5 < size_range[1]\<close>. The factor 1.5 is
  applied after the division here, and before it in the code.
\<close>

definition diameter :: "cell \<Rightarrow> error + cell" where
  "diameter r = bindE (cell_mul_int r 2) (\<lambda>x. cell_div_float x (float_literal (4 / 10)))"

definition spec_size_upper :: "cell \<Rightarrow> int \<Rightarrow> error + bool" where
  "spec_size_upper r hi =
     bindE (bindE (diameter r) (\<lambda>d. cell_mul_float d (float_literal (15 / 10))))
           (\<lambda>x. cell_lt_int x hi)"

subsection \<open>Sample tables\<close>

text \<open>
  Two copies of the row of the docstring of \<open>filter_data\<close>, with the columns
  \<^verbatim>\<open>modelMag_u\<close> and \<^verbatim>\<open>petroR90_r\<close> left open, and one column the filter does not know.
\<close>

definition sample_df :: "series \<Rightarrow> series \<Rightarrow> dataframe" where
  "sample_df mag_u petro =
     \<lparr>index = [I64 0, I64 1],
      columns =
       [(''modelMag_u'', mag_u),
        (''modelMag_g'', [I64 19, I64 19]),
        (''modelMag_r'', [I64 18, I64 18]),
        (''modelMag_i'', [I64 18, I64 18]),
        (''modelMag_z'', [I64 17, I64 17]),
        (''modelMagErr_u'', [F64 (float_literal (4 / 10)), F64 (float_literal (4 / 10))]),
        (''modelMagErr_g'', [F64 (float_literal (4 / 100)), F64 (float_literal (4 / 100))]),
        (''modelMagErr_r'', [F64 (float_literal (4 / 100)), F64 (float_literal (4 / 100))]),
        (''modelMagErr_i'', [F64 (float_literal (4 / 100)), F64 (float_literal (4 / 100))]),
        (''modelMagErr_z'', [F64 (float_literal (9 / 100)), F64 (float_literal (9 / 100))]),
        (''p_cs_debiased'', [F64 (float_literal (9 / 10)), F64 (float_literal (9 / 10))]),
        (''p_el_debiased'', [F64 (float_literal (1 / 10)), F64 (float_literal (1 / 10))]),
        (''spiral'', [F64 (Finite 1), F64 (Finite 1)]),
        (''elliptical'', [F64 (Finite 0), F64 (Finite 0)]),
        (''petroR50_r'', [F64 (Finite 3), F64 (Finite 3)]),
        (''petroR90_r'', petro),
        (''specobjid'', [I64 1, I64 1]),
        (''objid'', [I64 2, I64 2]),
        (''ra'', [F64 (Finite 180), F64 (Finite 180)]),
        (''dec'', [F64 (Finite 0), F64 (Finite 0)]),
        (''extinction_u'', [F64 (float_literal (1 / 10)), F64 (float_literal (1 / 10))]),
        (''extinction_g'', [F64 (float_literal (1 / 10)), F64 (float_literal (1 / 10))]),
        (''extinction_r'', [F64 (float_literal (1 / 10)), F64 (float_literal (1 / 10))]),
        (''extinction_i'', [F64 (float_literal (1 / 10)), F64 (float_literal (1 / 10))]),
        (''extinction_z'', [F64 (float_literal (1 / 10)), F64 (float_literal (1 / 10))]),
        (''nvote'', [I64 40, I64 40])]\<rparr>"

text \<open>The docstring row with \<^verbatim>\<open>petroR90_r = 5.0\<close>, and the same row with \<^verbatim>\<open>15.0\<close>.\<close>

definition example_df :: dataframe where
  "example_df = sample_df [I64 20, I64 20] [F64 (Finite 5), F64 (Finite 15)]"

text \<open>
  Two radii at a rounding boundary: the float64 numbers \<^verbatim>\<open>1.7333333333333332\<close> and
  \<^verbatim>\<open>0.9333333333333333\<close>.
\<close>

definition boundary_df :: dataframe where
  "boundary_df = sample_df [I64 20, I64 20]
     [F64 (Finite (7806239354108859 / 4503599627370496)),
      F64 (Finite (4203359652212463 / 4503599627370496))]"

text \<open>A magnitude column that stayed text because one of its values is not a number.\<close>

definition text_df :: dataframe where
  "text_df = sample_df [Str ''20.5'', Str ''n/a''] [F64 (Finite 5), F64 (Finite 15)]"

text \<open>A table with that text column alone.\<close>

definition partial_df :: dataframe where
  "partial_df = \<lparr>index = [I64 0, I64 1], columns = [(''modelMag_u'', [Str ''20.5'', Str ''n/a''])]\<rparr>"

text \<open>The docstring table without the column \<^verbatim>\<open>ra\<close>: numbers only, one kept column missing.\<close>

definition no_ra_df :: dataframe where
  "no_ra_df =
     \<lparr>index = index example_df,
      columns = filter (\<lambda>c. fst c \<noteq> ''ra'') (columns example_df)\<rparr>"

text \<open>A size bound that no float64 holds: \<^verbatim>\<open>2 ** 1024\<close>.\<close>

definition beyond_float64 :: int where
  "beyond_float64 = 2 ^ 1024"

text \<open>A parser that knows the three strings of the coercion scenario.\<close>

definition sample_parse :: "string \<Rightarrow> num option" where
  "sample_parse s =
     (if s = ''1'' then Some (NInt 1) else if s = ''2'' then Some (NInt 2)
      else if s = ''3'' then Some (NInt 3) else None)"

section \<open>Lemmas\<close>

subsection \<open>Exceptions\<close>

lemma bindE_Inr [simp]: "bindE (Inr x) f = f x"
  by (simp add: bindE_def)

lemma bindE_Inl [simp]: "bindE (Inl e) f = Inl e"
  by (simp add: bindE_def)

lemma bindE_eq_Inr: "bindE m f = Inr y \<longleftrightarrow> (\<exists>x. m = Inr x \<and> f x = Inr y)"
  by (cases m) simp_all

lemma lift2_Inr [simp]: "lift2 f (Inr x) (Inr y) = Inr (f x y)"
  by (simp add: lift2_def)

lemma lift2_Inl [simp]: "lift2 f (Inl e) b = Inl e"
  by (simp add: lift2_def)

lemma lift2_Inr_Inl [simp]: "lift2 f (Inr x) (Inl e) = Inl e"
  by (simp add: lift2_def)

lemma lift2_eq_Inr: "lift2 f a b = Inr z \<longleftrightarrow> (\<exists>x y. a = Inr x \<and> b = Inr y \<and> z = f x y)"
  by (cases a; cases b) auto

lemma mapE_eq_Inr: "mapE f xs = Inr ys \<longleftrightarrow> list_all2 (\<lambda>x y. f x = Inr y) xs ys"
  by (induction xs arbitrary: ys) (auto simp: bindE_eq_Inr list_all2_Cons1)

lemma mapE_fuse:
  "bindE (mapE f xs) (mapE g) = Inr zs \<longleftrightarrow> mapE (\<lambda>x. bindE (f x) g) xs = Inr zs"
proof -
  have "(\<exists>ys. list_all2 (\<lambda>x y. f x = Inr y) xs ys \<and> list_all2 (\<lambda>y z. g y = Inr z) ys zs)
        \<longleftrightarrow> list_all2 ((\<lambda>x y. f x = Inr y) OO (\<lambda>y z. g y = Inr z)) xs zs"
    by (simp add: list.rel_compp relcompp_apply)
  moreover have "((\<lambda>x y. f x = Inr y) OO (\<lambda>y z. g y = Inr z)) = (\<lambda>x z. bindE (f x) g = Inr z)"
    by (auto simp: fun_eq_iff bindE_eq_Inr)
  ultimately show ?thesis
    by (simp add: bindE_eq_Inr mapE_eq_Inr)
qed

lemma mapE_chain:
  "(\<exists>ys. mapE f xs = Inr ys \<and> mapE g ys = Inr zs) \<longleftrightarrow>
   mapE (\<lambda>x. bindE (f x) g) xs = Inr zs"
  using mapE_fuse [of f xs g zs] by (simp add: bindE_eq_Inr)

subsection \<open>Literals and conversions, evaluated\<close>

lemma floor_rat_numeral_div [simp]:
  "\<lfloor>numeral a / numeral b :: rat\<rfloor> = numeral a div numeral b"
  by (metis floor_divide_of_int_eq of_int_numeral)

lemmas round_eval = round_double_def floor_log2_def bits.simps pow2_def round_half_even_def Let_def

lemma float_literals:
  "float_literal (1 / 2) = Finite (1 / 2)"
  "float_literal (1 / 20) = Finite (3602879701896397 / 72057594037927936)"
  "float_literal (1 / 10) = Finite (3602879701896397 / 36028797018963968)"
  "float_literal (2 / 5) = Finite (3602879701896397 / 9007199254740992)"
  "float_literal (3 / 2) = Finite (3 / 2)"
  "float_literal (1 / 25) = Finite (5764607523034235 / 144115188075855872)"
  "float_literal (9 / 100) = Finite (3242591731706757 / 36028797018963968)"
  "float_literal (9 / 10) = Finite (8106479329266893 / 9007199254740992)"
  "float_literal (4 / 5) = Finite (3602879701896397 / 4503599627370496)"
  by (simp_all add: float_literal_def round_eval)

lemma float_of_int_fits:
  "int_fits_float64 k \<Longrightarrow> float_of_int k = Inr (round_double (of_int k))"
  by (simp add: float_of_int_def)

lemma small_ints_fit:
  "int_fits_float64 2" "int_fits_float64 20" "int_fits_float64 64" "int_fits_float64 (- 30)"
  by (simp_all add: int_fits_float64_def round_eval)

lemma float_of_small_ints:
  "float_of_int 2 = Inr (Finite 2)" "float_of_int 20 = Inr (Finite 20)"
  "float_of_int 64 = Inr (Finite 64)" "float_of_int (- 30) = Inr (Finite (- 30))"
  by (simp_all add: float_of_int_def int_fits_float64_def round_eval)

lemma beyond_float64_overflows: "float_of_int beyond_float64 = Inl OverflowError"
  by (simp add: float_of_int_def int_fits_float64_def beyond_float64_def round_eval)

text \<open>Every int below \<open>2\<^sup>1\<^sup>0\<^sup>2\<^sup>3\<close> in magnitude can be converted.\<close>

lemma bits_le: "n < 2 ^ m \<Longrightarrow> bits n \<le> int m"
proof (induction m arbitrary: n)
  case 0
  then show ?case by (simp add: bits.simps)
next
  case (Suc m)
  show ?case
  proof (cases "n \<le> 0")
    case True
    then show ?thesis by (simp add: bits.simps)
  next
    case False
    from Suc.prems have "n div 2 < 2 ^ m"
      by simp
    from Suc.IH [OF this] False show ?thesis
      by (subst bits.simps) simp
  qed
qed

lemma int_fits_float64_below:
  assumes "\<bar>k\<bar> < 2 ^ 1023"
  shows "int_fits_float64 k"
proof (cases "k = 0")
  case True
  then show ?thesis by (simp add: int_fits_float64_def round_double_def)
next
  case False
  define a :: rat where "a = \<bar>of_int k\<bar>"
  have one: "1 \<le> a"
  proof -
    from False have "1 \<le> \<bar>k\<bar>"
      by simp
    then have "(of_int 1 :: rat) \<le> of_int \<bar>k\<bar>"
      by (simp only: of_int_le_iff)
    then show ?thesis
      by (simp add: a_def)
  qed
  have "\<lfloor>a\<rfloor> = \<bar>k\<bar>"
    unfolding a_def by (metis floor_of_int of_int_abs)
  with one have "floor_log2 a = bits \<bar>k\<bar> - 1"
    by (simp add: floor_log2_def)
  with bits_le [OF assms] have e: "floor_log2 a \<le> 1022"
    by simp
  then have "\<not> 1023 < floor_log2 a" "max (floor_log2 a) (- 1022) - 52 \<noteq> 971"
    by simp_all
  with False show ?thesis
    unfolding int_fits_float64_def round_double_def Let_def a_def [symmetric]
    by simp
qed

text \<open>An element-wise operation on a column of the table.\<close>

lemma getitem_eq_Inr: "getitem df n = Inr s \<longleftrightarrow> map_of (columns df) n = Some s"
  by (simp add: getitem_def split: option.splits)

lemma getitem_col: "has_column df n \<Longrightarrow> getitem df n = Inr (col df n)"
  by (auto simp: getitem_def col_def has_column_def)

lemma getitem_missing: "\<not> has_column df n \<Longrightarrow> getitem df n = Inl (KeyError [n])"
  by (auto simp: getitem_def has_column_def)

lemma wf_df_col_length: "wf_df df \<Longrightarrow> has_column df n \<Longrightarrow> length (col df n) = nrows df"
  by (auto simp: wf_df_def has_column_def col_def list_all_iff dest!: map_of_SomeD)

subsection \<open>Column expressions and row-wise checks\<close>

lemma computesD:
  "computes n P a \<Longrightarrow> a = Inr bs \<Longrightarrow> length bs = n \<and> (\<forall>i<n. P i = Inr (bs ! i))"
  unfolding computes_def by blast

lemma computesI:
  "computes n P a \<Longrightarrow> length bs = n \<Longrightarrow> (\<And>i. i < n \<Longrightarrow> P i = Inr (bs ! i)) \<Longrightarrow> a = Inr bs"
  unfolding computes_def by blast

lemma computes_cong:
  "computes n P a' \<Longrightarrow> (\<And>bs. a = Inr bs \<longleftrightarrow> a' = Inr bs) \<Longrightarrow> computes n P a"
  by (simp add: computes_def)

lemma computes_col:
  assumes "wf_df df" and "has_column df name"
  shows "computes (nrows df) (\<lambda>i. F (cell_at df name i)) (bindE (getitem df name) (mapE F))"
  using wf_df_col_length [OF assms] getitem_col [OF assms(2)]
  by (auto simp: computes_def mapE_eq_Inr list_all2_conv_all_nth cell_at_def)

lemma computes_lift2:
  assumes "computes n P a" and "computes n Q b"
  shows "computes n (\<lambda>i. lift2 f (P i) (Q i)) (lift2 (map2 f) a b)"
  unfolding computes_def
proof (intro allI iffI)
  fix bs
  assume "lift2 (map2 f) a b = Inr bs"
  then obtain x y where xy: "a = Inr x" "b = Inr y" "bs = map2 f x y"
    by (auto simp: lift2_eq_Inr)
  with assms have "length x = n" "length y = n" "\<forall>i<n. P i = Inr (x ! i)" "\<forall>i<n. Q i = Inr (y ! i)"
    by (auto simp: computes_def)
  with xy show "length bs = n \<and> (\<forall>i<n. lift2 f (P i) (Q i) = Inr (bs ! i))"
    by simp
next
  fix bs
  assume bs: "length bs = n \<and> (\<forall>i<n. lift2 f (P i) (Q i) = Inr (bs ! i))"
  define x where "x = map (\<lambda>i. projr (P i)) [0..<n]"
  define y where "y = map (\<lambda>i. projr (Q i)) [0..<n]"
  have len: "length x = n" "length y = n"
    by (simp_all add: x_def y_def)
  have row: "P i = Inr (x ! i) \<and> Q i = Inr (y ! i) \<and> bs ! i = f (x ! i) (y ! i)" if "i < n" for i
  proof -
    from bs that have "lift2 f (P i) (Q i) = Inr (bs ! i)"
      by simp
    then obtain p q where "P i = Inr p" "Q i = Inr q" "bs ! i = f p q"
      unfolding lift2_eq_Inr by blast
    moreover have "x ! i = projr (P i)" "y ! i = projr (Q i)"
      using that by (simp_all add: x_def y_def)
    ultimately show ?thesis
      by simp
  qed
  have "a = Inr x"
    using assms(1) len row unfolding computes_def by blast
  moreover have "b = Inr y"
    using assms(2) len row unfolding computes_def by blast
  moreover have "bs = map2 f x y"
  proof (rule nth_equalityI)
    show "length bs = length (map2 f x y)"
      using bs len by simp
    show "bs ! i = map2 f x y ! i" if "i < length bs" for i
      using that bs len row by simp
  qed
  ultimately show "lift2 (map2 f) a b = Inr bs"
    by simp
qed

lemma computes_and:
  "computes n P a \<Longrightarrow> computes n Q b \<Longrightarrow> computes n (\<lambda>i. lift2 (\<and>) (P i) (Q i)) (and_mask a b)"
  unfolding and_mask_def by (rule computes_lift2)

lemma computes_or:
  "computes n P a \<Longrightarrow> computes n Q b \<Longrightarrow> computes n (\<lambda>i. lift2 (\<or>) (P i) (Q i)) (or_mask a b)"
  unfolding or_mask_def by (rule computes_lift2)

lemma computes_gt_int:
  "wf_df df \<Longrightarrow> has_column df name \<Longrightarrow>
   computes (nrows df) (\<lambda>i. cell_gt_int (cell_at df name i) k) (gt_int (getitem df name) k)"
  unfolding gt_int_def by (rule computes_col)

lemma computes_lt_float:
  "wf_df df \<Longrightarrow> has_column df name \<Longrightarrow>
   computes (nrows df) (\<lambda>i. cell_lt_float (cell_at df name i) c) (lt_float (getitem df name) c)"
  unfolding lt_float_def by (rule computes_col)

lemma computes_ge_float:
  "wf_df df \<Longrightarrow> has_column df name \<Longrightarrow>
   computes (nrows df) (\<lambda>i. cell_ge_float (cell_at df name i) c) (ge_float (getitem df name) c)"
  unfolding ge_float_def by (rule computes_col)

lemma size_lower_series:
  "gt_int (div_float (mul_int g 2) (float_literal (4 / 10))) lo = Inr bs \<longleftrightarrow>
   bindE g (mapE (\<lambda>r. size_lower r lo)) = Inr bs"
  by (cases g) (simp_all add: gt_int_def div_float_def mul_int_def size_lower_def
      bindE_eq_Inr [of "mapE _ _"] bindE_eq_Inr [of "bindE _ _"] mapE_chain)

lemma size_upper_series:
  "lt_int (div_float (mul_float (mul_int g 2) (float_literal (15 / 10))) (float_literal (4 / 10))) hi
     = Inr bs \<longleftrightarrow>
   bindE g (mapE (\<lambda>r. size_upper r hi)) = Inr bs"
  by (cases g) (simp_all add: lt_int_def div_float_def mul_float_def mul_int_def size_upper_def
      bindE_eq_Inr [of "mapE _ _"] bindE_eq_Inr [of "bindE _ _"] mapE_chain)

lemma computes_size_lower:
  "wf_df df \<Longrightarrow> has_column df name \<Longrightarrow>
   computes (nrows df) (\<lambda>i. size_lower (cell_at df name i) lo)
     (gt_int (div_float (mul_int (getitem df name) 2) (float_literal (4 / 10))) lo)"
  by (rule computes_cong [OF computes_col size_lower_series])

lemma computes_size_upper:
  "wf_df df \<Longrightarrow> has_column df name \<Longrightarrow>
   computes (nrows df) (\<lambda>i. size_upper (cell_at df name i) hi)
     (lt_int (div_float (mul_float (mul_int (getitem df name) 2) (float_literal (15 / 10)))
        (float_literal (4 / 10))) hi)"
  by (rule computes_cong [OF computes_col size_upper_series])

lemma mask_columns_present:
  "list_all (has_column df) mask_columns \<longleftrightarrow>
   has_column df ''modelMag_u'' \<and> has_column df ''modelMag_g'' \<and> has_column df ''modelMag_r'' \<and>
   has_column df ''modelMag_i'' \<and> has_column df ''modelMag_z'' \<and>
   has_column df ''modelMagErr_u'' \<and> has_column df ''modelMagErr_g'' \<and>
   has_column df ''modelMagErr_r'' \<and> has_column df ''modelMagErr_i'' \<and>
   has_column df ''modelMagErr_z'' \<and> has_column df ''p_cs_debiased'' \<and>
   has_column df ''p_el_debiased'' \<and> has_column df ''petroR90_r''"
  by (simp add: mask_columns_def)

lemma filter_data_mask_computes:
  assumes "wf_df df" and "list_all (has_column df) mask_columns"
  shows "computes (nrows df) (row_check df confidence size_range)
           (filter_data_mask df confidence size_range)"
  using assms unfolding filter_data_mask_def row_check_def mask_columns_present
  by (intro computes_and computes_or computes_gt_int computes_lt_float computes_ge_float
      computes_size_lower computes_size_upper) simp_all

subsection \<open>Row selection\<close>

lemma positions_iff: "i \<in> set (positions m) \<longleftrightarrow> i < length m \<and> m ! i"
  by (auto simp: positions_def)

lemma positions_sorted: "sorted_wrt (<) (positions m)"
  unfolding positions_def by (rule sorted_wrt_filter) (simp add: sorted_wrt_upt [simplified])

lemma pick_positions:
  assumes "length m = length xs"
  shows "pick m xs = map (nth xs) (positions m)"
proof -
  have "zip m xs = map (\<lambda>i. (m ! i, xs ! i)) [0..<length m]"
    by (rule nth_equalityI) (use assms in simp_all)
  then show ?thesis
    by (simp add: pick_def positions_def filter_map comp_def)
qed

lemma map_of_pick:
  "map_of (map (\<lambda>c. (fst c, pick m (snd c))) cs) n = map_option (pick m) (map_of cs n)"
  by (induction cs) auto

lemma getitem_list_Inr:
  "getitem_list df names = Inr out \<longleftrightarrow>
   list_all (has_column df) names \<and>
   out = \<lparr>index = index df, columns = map (\<lambda>n. (n, col df n)) names\<rparr>"
proof -
  have "filter (\<lambda>n. map_of (columns df) n = None) names = [] \<longleftrightarrow> list_all (has_column df) names"
    by (auto simp: filter_empty_conv list_all_iff has_column_def)
  moreover have "list_all (has_column df) names \<Longrightarrow>
      map (\<lambda>n. (n, the (map_of (columns df) n))) names = map (\<lambda>n. (n, col df n)) names"
    by (auto simp: list_all_iff has_column_def col_def)
  ultimately show ?thesis
    by (auto simp: getitem_list_def Let_def)
qed

lemma filter_data_mask_has_columns:
  assumes "filter_data_mask df confidence size_range = Inr m"
  shows "list_all (has_column df) mask_columns"
  using assms unfolding filter_data_mask_def mask_columns_present
  by (auto simp: and_mask_def or_mask_def lift2_eq_Inr gt_int_def lt_int_def lt_float_def
      ge_float_def mul_int_def mul_float_def div_float_def bindE_eq_Inr getitem_eq_Inr
      has_column_def)

lemma filter_data_Inr:
  assumes "wf_df df" and "filter_data df confidence size_range = Inr out"
  shows "\<exists>m. filter_data_mask df confidence size_range = Inr m \<and> length m = nrows df \<and>
             list_all (has_column df) cols_to_keep \<and> out = rows_at df (positions m)"
proof -
  from assms(2) obtain m sel where m: "filter_data_mask df confidence size_range = Inr m"
    and sel: "getitem_mask df m = Inr sel" and out: "getitem_list sel cols_to_keep = Inr out"
    by (auto simp: filter_data_def bindE_eq_Inr)
  from sel have len: "length m = nrows df"
    and sel_eq: "sel = \<lparr>index = pick m (index df),
                        columns = map (\<lambda>c. (fst c, pick m (snd c))) (columns df)\<rparr>"
    by (auto simp: getitem_mask_def split: if_splits)
  have has: "has_column sel n \<longleftrightarrow> has_column df n" for n
    by (simp add: sel_eq has_column_def map_of_pick)
  have cols: "col sel n = map (nth (col df n)) (positions m)" if "has_column df n" for n
  proof -
    from that obtain s where s: "map_of (columns df) n = Some s"
      by (auto simp: has_column_def)
    with assms(1) that have "length s = length m"
      using wf_df_col_length [of df n] by (simp add: col_def len)
    with s show ?thesis
      by (simp add: col_def sel_eq map_of_pick pick_positions)
  qed
  from out have keep: "list_all (has_column df) cols_to_keep"
    and out_eq: "out = \<lparr>index = index sel, columns = map (\<lambda>n. (n, col sel n)) cols_to_keep\<rparr>"
    by (simp_all add: getitem_list_Inr has list_all_iff)
  have "index sel = map (nth (index df)) (positions m)"
    using len by (simp add: sel_eq pick_positions nrows_def)
  moreover have "map (\<lambda>n. (n, col sel n)) cols_to_keep
      = map (\<lambda>n. (n, map (nth (col df n)) (positions m))) cols_to_keep"
    using keep cols by (auto simp: list_all_iff)
  ultimately have "out = rows_at df (positions m)"
    by (simp add: out_eq rows_at_def)
  with m len keep show ?thesis
    by blast
qed

lemma lift2_and_True: "lift2 (\<and>) a b = Inr True \<longleftrightarrow> a = Inr True \<and> b = Inr True"
  by (auto simp: lift2_eq_Inr)

lemma lift2_or_True: "lift2 (\<or>) a b = Inr True \<Longrightarrow> a = Inr True \<or> b = Inr True"
  by (auto simp: lift2_eq_Inr)

lemma filter_data_row_check:
  assumes "wf_df df" and "filter_data df confidence size_range = Inr out"
  shows "\<exists>ps. out = rows_at df ps \<and> sorted_wrt (<) ps \<and>
           (\<forall>i\<in>set ps. i < nrows df \<and> row_check df confidence size_range i = Inr True)"
proof -
  from filter_data_Inr [OF assms] obtain m
    where m: "filter_data_mask df confidence size_range = Inr m" and len: "length m = nrows df"
      and out: "out = rows_at df (positions m)"
    by blast
  have "computes (nrows df) (row_check df confidence size_range)
          (filter_data_mask df confidence size_range)"
    using assms(1) filter_data_mask_has_columns [OF m] by (rule filter_data_mask_computes)
  from computesD [OF this m] have "\<forall>i<nrows df. row_check df confidence size_range i = Inr (m ! i)"
    by simp
  with len have "\<forall>i\<in>set (positions m). i < nrows df \<and> row_check df confidence size_range i = Inr True"
    by (simp add: positions_iff)
  with out positions_sorted show ?thesis
    by blast
qed

lemma filter_data_size_checks:
  assumes "wf_df df" and "filter_data df confidence size_range = Inr out"
  shows "\<exists>ps. out = rows_at df ps \<and>
     (\<forall>i\<in>set ps. i < nrows df \<and>
        holds (size_lower (cell_at df ''petroR90_r'' i) (fst size_range)) \<and>
        holds (size_upper (cell_at df ''petroR90_r'' i) (snd size_range)))"
proof -
  from filter_data_row_check [OF assms] obtain ps where out: "out = rows_at df ps"
    and ps: "\<forall>i\<in>set ps. i < nrows df \<and> row_check df confidence size_range i = Inr True"
    by blast
  have "holds (size_lower (cell_at df ''petroR90_r'' i) (fst size_range)) \<and>
        holds (size_upper (cell_at df ''petroR90_r'' i) (snd size_range))"
    if "row_check df confidence size_range i = Inr True" for i
    using that unfolding row_check_def lift2_and_True holds_def by simp
  with out ps show ?thesis
    by blast
qed

lemma filter_data_columns_keep:
  assumes "filter_data df confidence size_range = Inr out"
  shows "map fst (columns out) = cols_to_keep"
proof -
  from assms obtain sel where "getitem_list sel cols_to_keep = Inr out"
    by (auto simp: filter_data_def bindE_eq_Inr)
  then show ?thesis
    by (simp add: getitem_list_Inr comp_def)
qed

subsection \<open>Numeric coercion\<close>

lemma to_numeric_Inr:
  "to_numeric parse c = Inr r \<longleftrightarrow>
   (\<exists>ns. list_all2 (\<lambda>x n. parse_cell parse x = Some n) c ns \<and>
         r = (if list_all is_int ns then map int_cell ns else map float_cell ns))"
proof -
  have "(case parse_cell parse x of None \<Rightarrow> Inl ValueError | Some n \<Rightarrow> Inr n) = Inr n
        \<longleftrightarrow> parse_cell parse x = Some n" for x n
    by (simp split: option.splits)
  then show ?thesis
    by (auto simp: to_numeric_def bindE_eq_Inr mapE_eq_Inr)
qed

lemma safe_to_numeric_length:
  "\<exists>r. safe_to_numeric parse c = Inr r \<and> length r = length c"
proof (cases "to_numeric parse c")
  case (Inl e)
  then show ?thesis by (simp add: safe_to_numeric_def)
next
  case (Inr r)
  then have "length r = length c"
    by (auto simp: to_numeric_Inr dest: list_all2_lengthD)
  with Inr show ?thesis by (simp add: safe_to_numeric_def)
qed

subsection \<open>From the mask to the result\<close>

lemma getitem_mask_Inr:
  "getitem_mask df m = Inr sel \<longleftrightarrow>
   length m = nrows df \<and>
   sel = \<lparr>index = pick m (index df), columns = map (\<lambda>c. (fst c, pick m (snd c))) (columns df)\<rparr>"
  by (auto simp: getitem_mask_def)

lemma has_column_getitem_mask:
  "getitem_mask df m = Inr sel \<Longrightarrow> has_column sel n \<longleftrightarrow> has_column df n"
  by (auto simp: getitem_mask_Inr has_column_def map_of_pick)

lemma filter_data_has_columns:
  assumes "filter_data df confidence size_range = Inr out"
  shows "list_all (has_column df) required_columns"
proof -
  from assms obtain m sel where m: "filter_data_mask df confidence size_range = Inr m"
    and sel: "getitem_mask df m = Inr sel" and out: "getitem_list sel cols_to_keep = Inr out"
    by (auto simp: filter_data_def bindE_eq_Inr)
  from out have "list_all (has_column df) cols_to_keep"
    by (simp add: getitem_list_Inr has_column_getitem_mask [OF sel] list_all_iff)
  with filter_data_mask_has_columns [OF m] show ?thesis
    by (simp add: required_columns_def)
qed

lemma filter_data_eq:
  assumes "wf_df df" and "filter_data_mask df confidence size_range = Inr m"
    and "list_all (has_column df) cols_to_keep"
  shows "filter_data df confidence size_range = Inr (rows_at df (positions m))"
proof -
  have "computes (nrows df) (row_check df confidence size_range)
          (filter_data_mask df confidence size_range)"
    using assms(1) filter_data_mask_has_columns [OF assms(2)] by (rule filter_data_mask_computes)
  from computesD [OF this assms(2)] have len: "length m = nrows df"
    by simp
  define sel where "sel = \<lparr>index = pick m (index df),
      columns = map (\<lambda>c. (fst c, pick m (snd c))) (columns df)\<rparr>"
  have sel: "getitem_mask df m = Inr sel"
    by (simp add: getitem_mask_Inr len sel_def)
  have "list_all (has_column sel) cols_to_keep"
    using assms(3) by (simp add: has_column_getitem_mask [OF sel] list_all_iff)
  then obtain out where out: "getitem_list sel cols_to_keep = Inr out"
    by (simp add: getitem_list_Inr)
  with assms(2) sel have "filter_data df confidence size_range = Inr out"
    by (simp add: filter_data_def)
  moreover from filter_data_Inr [OF assms(1) this] assms(2) have "out = rows_at df (positions m)"
    by auto
  ultimately show ?thesis
    by simp
qed

subsection \<open>Columns of numbers\<close>

lemma cell_checks_total:
  assumes "is_number c"
  shows "int_fits_float64 k \<Longrightarrow> \<exists>b. cell_gt_int c k = Inr b"
    "\<exists>b. cell_lt_float c x = Inr b" "\<exists>b. cell_ge_float c x = Inr b"
    "int_fits_float64 k \<Longrightarrow> \<exists>b. size_lower c k = Inr b"
    "int_fits_float64 k \<Longrightarrow> \<exists>b. size_upper c k = Inr b"
  using assms
  by (cases c; simp add: size_lower_def size_upper_def float_of_int_fits float_of_small_ints)+

lemma computes_defined:
  assumes "computes n P a" and "\<And>i. i < n \<Longrightarrow> \<exists>b. P i = Inr b"
  shows "\<exists>bs. a = Inr bs"
proof -
  have "a = Inr (map (\<lambda>i. projr (P i)) [0..<n])"
  proof (rule computesI [OF assms(1)])
    show "length (map (\<lambda>i. projr (P i)) [0..<n]) = n"
      by simp
    show "P i = Inr (map (\<lambda>i. projr (P i)) [0..<n] ! i)" if "i < n" for i
      using assms(2) [OF that] that by auto
  qed
  then show ?thesis ..
qed

lemma numeric_cell_at:
  assumes "wf_df df" and "mask_columns_numeric df" and "name \<in> set mask_columns"
    and "has_column df name" and "i < nrows df"
  shows "is_number (cell_at df name i)"
proof -
  from assms(2,3) have "list_all is_number (col df name)"
    by (simp add: mask_columns_numeric_def list_all_iff)
  moreover have "i < length (col df name)"
    using wf_df_col_length [OF assms(1,4)] assms(5) by simp
  ultimately show ?thesis
    by (simp add: cell_at_def list_all_length)
qed

lemma key_or_ok_lift2:
  "key_or_ok df a \<Longrightarrow> key_or_ok df b \<Longrightarrow> key_or_ok df (lift2 f a b)"
  by (cases a; cases b) (auto simp: key_or_ok_def)

lemma key_or_ok_and: "key_or_ok df a \<Longrightarrow> key_or_ok df b \<Longrightarrow> key_or_ok df (and_mask a b)"
  unfolding and_mask_def by (rule key_or_ok_lift2)

lemma key_or_ok_or: "key_or_ok df a \<Longrightarrow> key_or_ok df b \<Longrightarrow> key_or_ok df (or_mask a b)"
  unfolding or_mask_def by (rule key_or_ok_lift2)

lemma key_or_ok_operand:
  assumes "wf_df df" and "mask_columns_numeric df" and "name \<in> set mask_columns"
    and comp: "has_column df name \<Longrightarrow> computes (nrows df) (\<lambda>i. F (cell_at df name i)) a"
    and miss: "\<not> has_column df name \<Longrightarrow> a = Inl (KeyError [name])"
    and total: "\<And>c. is_number c \<Longrightarrow> \<exists>b. F c = Inr b"
  shows "key_or_ok df a"
proof (cases "has_column df name")
  case True
  have "\<exists>bs. a = Inr bs"
  proof (rule computes_defined [OF comp [OF True]])
    fix i assume "i < nrows df"
    with assms(1-3) True have "is_number (cell_at df name i)"
      by (rule numeric_cell_at)
    then show "\<exists>b. F (cell_at df name i) = Inr b"
      by (rule total)
  qed
  then show ?thesis
    by (simp add: key_or_ok_def)
next
  case False
  with assms(3) miss show ?thesis
    by (auto simp: key_or_ok_def)
qed

lemma key_or_ok_gt_int:
  assumes "wf_df df" and "mask_columns_numeric df" and "name \<in> set mask_columns"
    and fits: "int_fits_float64 k"
  shows "key_or_ok df (gt_int (getitem df name) k)"
  using assms(1-3)
proof (rule key_or_ok_operand)
  show "has_column df name \<Longrightarrow>
    computes (nrows df) (\<lambda>i. cell_gt_int (cell_at df name i) k) (gt_int (getitem df name) k)"
    using assms(1) by (rule computes_gt_int)
  show "\<not> has_column df name \<Longrightarrow> gt_int (getitem df name) k = Inl (KeyError [name])"
    by (simp add: gt_int_def getitem_missing)
  show "\<exists>b. cell_gt_int c k = Inr b" if "is_number c" for c
    using that fits by (rule cell_checks_total)
qed

lemma key_or_ok_lt_float:
  assumes "wf_df df" and "mask_columns_numeric df" and "name \<in> set mask_columns"
  shows "key_or_ok df (lt_float (getitem df name) x)"
  using assms
proof (rule key_or_ok_operand)
  show "has_column df name \<Longrightarrow>
    computes (nrows df) (\<lambda>i. cell_lt_float (cell_at df name i) x) (lt_float (getitem df name) x)"
    using assms(1) by (rule computes_lt_float)
  show "\<not> has_column df name \<Longrightarrow> lt_float (getitem df name) x = Inl (KeyError [name])"
    by (simp add: lt_float_def getitem_missing)
qed (rule cell_checks_total)

lemma key_or_ok_ge_float:
  assumes "wf_df df" and "mask_columns_numeric df" and "name \<in> set mask_columns"
  shows "key_or_ok df (ge_float (getitem df name) x)"
  using assms
proof (rule key_or_ok_operand)
  show "has_column df name \<Longrightarrow>
    computes (nrows df) (\<lambda>i. cell_ge_float (cell_at df name i) x) (ge_float (getitem df name) x)"
    using assms(1) by (rule computes_ge_float)
  show "\<not> has_column df name \<Longrightarrow> ge_float (getitem df name) x = Inl (KeyError [name])"
    by (simp add: ge_float_def getitem_missing)
qed (rule cell_checks_total)

lemma key_or_ok_size_lower:
  assumes "wf_df df" and "mask_columns_numeric df" and "name \<in> set mask_columns"
    and fits: "int_fits_float64 lo"
  shows "key_or_ok df (gt_int (div_float (mul_int (getitem df name) 2) (float_literal (4 / 10))) lo)"
  using assms(1-3)
proof (rule key_or_ok_operand)
  show "has_column df name \<Longrightarrow>
    computes (nrows df) (\<lambda>i. size_lower (cell_at df name i) lo)
      (gt_int (div_float (mul_int (getitem df name) 2) (float_literal (4 / 10))) lo)"
    using assms(1) by (rule computes_size_lower)
  show "\<not> has_column df name \<Longrightarrow>
    gt_int (div_float (mul_int (getitem df name) 2) (float_literal (4 / 10))) lo
      = Inl (KeyError [name])"
    by (simp add: gt_int_def div_float_def mul_int_def getitem_missing)
  show "\<exists>b. size_lower c lo = Inr b" if "is_number c" for c
    using that fits by (rule cell_checks_total)
qed

lemma key_or_ok_size_upper:
  assumes "wf_df df" and "mask_columns_numeric df" and "name \<in> set mask_columns"
    and fits: "int_fits_float64 hi"
  shows "key_or_ok df (lt_int (div_float (mul_float (mul_int (getitem df name) 2)
           (float_literal (15 / 10))) (float_literal (4 / 10))) hi)"
  using assms(1-3)
proof (rule key_or_ok_operand)
  show "has_column df name \<Longrightarrow>
    computes (nrows df) (\<lambda>i. size_upper (cell_at df name i) hi)
      (lt_int (div_float (mul_float (mul_int (getitem df name) 2)
           (float_literal (15 / 10))) (float_literal (4 / 10))) hi)"
    using assms(1) by (rule computes_size_upper)
  show "\<not> has_column df name \<Longrightarrow>
    lt_int (div_float (mul_float (mul_int (getitem df name) 2)
           (float_literal (15 / 10))) (float_literal (4 / 10))) hi = Inl (KeyError [name])"
    by (simp add: lt_int_def div_float_def mul_float_def mul_int_def getitem_missing)
  show "\<exists>b. size_upper c hi = Inr b" if "is_number c" for c
    using that fits by (rule cell_checks_total)
qed

lemma filter_data_mask_key_or_ok:
  assumes "wf_df df" and "mask_columns_numeric df"
    and "int_fits_float64 (fst size_range)" and "int_fits_float64 (snd size_range)"
  shows "key_or_ok df (filter_data_mask df confidence size_range)"
  unfolding filter_data_mask_def
  by (intro key_or_ok_and key_or_ok_or key_or_ok_gt_int key_or_ok_lt_float key_or_ok_ge_float
      key_or_ok_size_lower key_or_ok_size_upper assms small_ints_fit)
    (simp_all add: mask_columns_def)

lemma lift2_total: "\<exists>x. a = Inr x \<Longrightarrow> \<exists>y. b = Inr y \<Longrightarrow> \<exists>z. lift2 f a b = Inr z"
  by auto

lemma round_double_0 [simp]: "round_double 0 = Finite 0"
  by (simp add: round_double_def)

lemma probability_below:
  assumes "in_unit_interval c" and "f_gt confidence (Finite 1)"
  shows "cell_ge_float c confidence = Inr False"
proof -
  have one: "int64_to_float w = Finite 1" if "sint w = 1" for w
    using that by (simp add: int64_to_float_def round_eval)
  have zero: "int64_to_float w = Finite 0" if "sint w = 0" for w
    using that by (simp add: int64_to_float_def)
  have le: "\<not> f_le confidence (Finite q)" if "q \<le> 1" for q
    using assms(2) that by (cases confidence) (simp_all add: f_gt_def)
  show ?thesis
  proof (cases c)
    case (F64 x)
    with assms(1) le show ?thesis
      by (cases x) (simp_all add: f_ge_def)
  next
    case (I64 w)
    with assms(1) have "sint w = 0 \<or> sint w = 1"
      by auto
    with I64 le [of 0] le [of 1] show ?thesis
      by (auto simp: f_ge_def one zero)
  next
    case (Str s)
    with assms(1) show ?thesis by simp
  qed
qed

subsection \<open>The result as a table\<close>

lemma distinct_cols_to_keep: "distinct cols_to_keep"
  by (simp add: cols_to_keep_def)

lemma map_of_rows_at:
  "map_of (columns (rows_at df ps)) n =
     (if n \<in> set cols_to_keep then Some (map (nth (col df n)) ps) else None)"
  by (simp add: rows_at_def map_of_map_restrict restrict_map_def)

lemma has_column_rows_at: "has_column (rows_at df ps) n \<longleftrightarrow> n \<in> set cols_to_keep"
  by (simp add: has_column_def map_of_rows_at)

lemma nrows_rows_at: "nrows (rows_at df ps) = length ps"
  by (simp add: nrows_def rows_at_def)

lemma wf_df_rows_at: "wf_df (rows_at df ps)"
  using distinct_cols_to_keep
  by (simp add: wf_df_def nrows_rows_at list_all_iff) (auto simp: rows_at_def comp_def)

lemma cell_at_rows_at:
  "n \<in> set cols_to_keep \<Longrightarrow> i < length ps \<Longrightarrow> cell_at (rows_at df ps) n i = cell_at df n (ps ! i)"
  by (simp add: cell_at_def col_def map_of_rows_at)

lemma and_mask_simps [simp]:
  "and_mask (Inl e) b = Inl e"
  "and_mask (Inr x) (Inl e) = Inl e"
  "and_mask (Inr x) (Inr y) = Inr (map2 (\<and>) x y)"
  by (simp_all add: and_mask_def)

lemma filter_data_again:
  assumes "wf_df df" and "filter_data df confidence size_range = Inr out"
  shows "filter_data out confidence size_range = Inl (KeyError [''modelMagErr_u''])"
proof -
  from filter_data_row_check [OF assms] obtain ps where out: "out = rows_at df ps"
    and ps: "\<forall>i\<in>set ps. i < nrows df \<and> row_check df confidence size_range i = Inr True"
    by blast
  have mag: "gt_int (getitem out name) (- 30) = Inr (replicate (length ps) True)"
    if keep: "name \<in> set cols_to_keep"
      and ok: "\<And>i. row_check df confidence size_range i = Inr True \<Longrightarrow>
                 cell_gt_int (cell_at df name i) (- 30) = Inr True"
    for name
  proof (rule computesI)
    show "computes (nrows out) (\<lambda>i. cell_gt_int (cell_at out name i) (- 30))
        (gt_int (getitem out name) (- 30))"
      unfolding out using wf_df_rows_at keep by (intro computes_gt_int) (simp_all add: has_column_rows_at)
    show "length (replicate (length ps) True) = nrows out"
      by (simp add: out nrows_rows_at)
    show "cell_gt_int (cell_at out name i) (- 30) = Inr (replicate (length ps) True ! i)"
      if "i < nrows out" for i
      using that ps keep by (simp add: out nrows_rows_at cell_at_rows_at ok)
  qed
  have u: "gt_int (getitem out ''modelMag_u'') (- 30) = Inr (replicate (length ps) True)"
    by (rule mag) (simp_all add: cols_to_keep_def row_check_def lift2_and_True)
  have g: "gt_int (getitem out ''modelMag_g'') (- 30) = Inr (replicate (length ps) True)"
    by (rule mag) (simp_all add: cols_to_keep_def row_check_def lift2_and_True)
  have r: "gt_int (getitem out ''modelMag_r'') (- 30) = Inr (replicate (length ps) True)"
    by (rule mag) (simp_all add: cols_to_keep_def row_check_def lift2_and_True)
  have i: "gt_int (getitem out ''modelMag_i'') (- 30) = Inr (replicate (length ps) True)"
    by (rule mag) (simp_all add: cols_to_keep_def row_check_def lift2_and_True)
  have z: "gt_int (getitem out ''modelMag_z'') (- 30) = Inr (replicate (length ps) True)"
    by (rule mag) (simp_all add: cols_to_keep_def row_check_def lift2_and_True)
  have "\<not> has_column out ''modelMagErr_u''"
    by (simp add: out has_column_rows_at cols_to_keep_def)
  then have e: "lt_float (getitem out ''modelMagErr_u'') x = Inl (KeyError [''modelMagErr_u''])" for x
    by (simp add: lt_float_def getitem_missing)
  have "filter_data_mask out confidence size_range = Inl (KeyError [''modelMagErr_u''])"
    unfolding filter_data_mask_def u g r i z e by simp
  then show ?thesis
    by (simp add: filter_data_def)
qed

lemma pick_all: "length xs = n \<Longrightarrow> pick (replicate n True) xs = xs"
proof -
  assume "length xs = n"
  then have "pick (replicate n True) xs = map (nth xs) (positions (replicate n True))"
    by (simp add: pick_positions)
  also have "positions (replicate n True) = [0..<n]"
    by (simp add: positions_def filter_id_conv)
  finally show ?thesis
    using \<open>length xs = n\<close> map_nth [of xs] by simp
qed

lemma selection_idempotent:
  assumes wf: "wf_df df" and m: "filter_data_mask df confidence size_range = Inr m"
    and sel: "getitem_mask df m = Inr sel"
  shows "filter_data_mask sel confidence size_range = Inr (replicate (nrows sel) True) \<and>
         getitem_mask sel (replicate (nrows sel) True) = Inr sel"
proof -
  have cols: "list_all (has_column df) mask_columns"
    using m by (rule filter_data_mask_has_columns)
  have comp: "computes (nrows df) (row_check df confidence size_range)
      (filter_data_mask df confidence size_range)"
    using wf cols by (rule filter_data_mask_computes)
  from computesD [OF comp m] have len: "length m = nrows df"
    and rows: "\<forall>i<nrows df. row_check df confidence size_range i = Inr (m ! i)"
    by simp_all
  from sel have sel_eq: "sel = \<lparr>index = pick m (index df),
      columns = map (\<lambda>c. (fst c, pick m (snd c))) (columns df)\<rparr>"
    by (simp add: getitem_mask_Inr)
  have n_sel: "nrows sel = length (positions m)"
    using len by (simp add: sel_eq nrows_def pick_positions)
  have col_sel: "col sel n = map (nth (col df n)) (positions m)" if "has_column df n" for n
  proof -
    from that obtain s where s: "map_of (columns df) n = Some s"
      by (auto simp: has_column_def)
    with wf that have "length s = length m"
      using wf_df_col_length [of df n] by (simp add: col_def len)
    with s show ?thesis
      by (simp add: col_def sel_eq map_of_pick pick_positions)
  qed
  have wf_sel: "wf_df sel"
  proof -
    have "map fst (columns sel) = map fst (columns df)"
      by (simp add: sel_eq comp_def)
    moreover have "length (snd c) = nrows sel" if "c \<in> set (columns sel)" for c
    proof -
      from that obtain d where d: "d \<in> set (columns df)" "c = (fst d, pick m (snd d))"
        by (auto simp: sel_eq)
      with wf have "length (snd d) = length m"
        by (simp add: wf_df_def list_all_iff len)
      with d show ?thesis
        by (simp add: n_sel pick_positions)
    qed
    ultimately show ?thesis
      using wf by (simp add: wf_df_def list_all_iff)
  qed
  have cols_sel: "list_all (has_column sel) mask_columns"
    using cols by (simp add: has_column_getitem_mask [OF sel] list_all_iff)
  have cell: "cell_at sel n k = cell_at df n (positions m ! k)"
    if "n \<in> set mask_columns" "k < nrows sel" for n k
    using that cols by (simp add: cell_at_def col_sel list_all_iff n_sel)
  have "row_check sel confidence size_range k = Inr True" if k: "k < nrows sel" for k
  proof -
    have "row_check sel confidence size_range k = row_check df confidence size_range (positions m ! k)"
      unfolding row_check_def using k by (simp add: cell mask_columns_def)
    moreover have "positions m ! k \<in> set (positions m)"
      using k by (simp add: n_sel)
    then have "positions m ! k < nrows df \<and> m ! (positions m ! k)"
      by (simp add: positions_iff len)
    ultimately show ?thesis
      using rows by simp
  qed
  then have "filter_data_mask sel confidence size_range = Inr (replicate (nrows sel) True)"
    by (intro computesI [OF filter_data_mask_computes [OF wf_sel cols_sel]]) simp_all
  moreover have "getitem_mask sel (replicate (nrows sel) True) = Inr sel"
  proof -
    have "map (\<lambda>c. (fst c, pick (replicate (nrows sel) True) (snd c))) (columns sel) = columns sel"
      using wf_sel by (intro map_idI) (simp add: wf_df_def list_all_iff pick_all)
    moreover have "pick (replicate (nrows sel) True) (index sel) = index sel"
      by (simp add: pick_all nrows_def)
    ultimately show ?thesis
      by (simp add: getitem_mask_Inr)
  qed
  ultimately show ?thesis ..
qed

subsection \<open>The copies of the filter\<close>

lemma map2_and_swap: "map2 (\<and>) (map2 (\<and>) x u) l = map2 (\<and>) (map2 (\<and>) x l) u"
proof (induction x arbitrary: u l)
  case Nil
  then show ?case by simp
next
  case (Cons a x)
  then show ?case by (cases u; cases l) auto
qed

lemma and_mask_swap:
  assumes "\<And>e. u = Inl e \<longleftrightarrow> l = Inl e"
  shows "and_mask (and_mask x u) l = and_mask (and_mask x l) u"
proof (cases x)
  case (Inl e)
  then show ?thesis by simp
next
  case x: (Inr xs)
  show ?thesis
  proof (cases u)
    case (Inl e)
    with assms [of e] have "l = Inl e" by blast
    with Inl x show ?thesis by simp
  next
    case u: (Inr us)
    show ?thesis
    proof (cases l)
      case (Inl e)
      with assms [of e] have "u = Inl e" by blast
      with u show ?thesis by simp
    next
      case (Inr ls)
      with x u show ?thesis by (simp add: map2_and_swap)
    qed
  qed
qed

lemma mapE_numbers:
  assumes "\<And>c. is_number c \<Longrightarrow> \<exists>y. F c = Inr y \<and> Q y"
    and "\<And>c. \<not> is_number c \<Longrightarrow> F c = Inl TypeError"
  shows "if list_all is_number xs then (\<exists>ys. mapE F xs = Inr ys \<and> list_all Q ys)
         else mapE F xs = Inl TypeError"
proof (induction xs)
  case Nil
  then show ?case by simp
next
  case (Cons x xs)
  show ?case
  proof (cases "is_number x")
    case True
    from assms(1) [OF this] obtain y where "F x = Inr y" "Q y"
      by blast
    with True Cons show ?thesis
      by (auto split: if_splits)
  next
    case False
    with assms(2) show ?thesis by simp
  qed
qed

lemma mul_int_series:
  "\<exists>ys. mapE (\<lambda>c. cell_mul_int c 2) s = Inr ys \<and> (list_all is_number ys \<longleftrightarrow> list_all is_number s)"
proof (induction s)
  case Nil
  then show ?case by simp
next
  case (Cons c s)
  then obtain ys where "mapE (\<lambda>c. cell_mul_int c 2) s = Inr ys"
    "list_all is_number ys \<longleftrightarrow> list_all is_number s"
    by blast
  then show ?case by (cases c) (simp_all add: float_of_small_ints)
qed

lemma size_operands_fail_alike:
  assumes hi: "int_fits_float64 hi" and lo: "int_fits_float64 lo"
  shows "lt_int (div_float (mul_float (mul_int g 2) x) y) hi = Inl e \<longleftrightarrow>
         gt_int (div_float (mul_int g 2) y) lo = Inl e"
proof (cases g)
  case (Inl e')
  then show ?thesis
    by (simp add: lt_int_def gt_int_def div_float_def mul_float_def mul_int_def)
next
  case (Inr s)
  obtain ys where ys: "mapE (\<lambda>c. cell_mul_int c 2) s = Inr ys"
    using mul_int_series [of s] by blast
  have mulf: "if list_all is_number zs
      then (\<exists>ws. mapE (\<lambda>c. cell_mul_float c x) zs = Inr ws \<and> list_all is_number ws)
      else mapE (\<lambda>c. cell_mul_float c x) zs = Inl TypeError" for zs
    by (rule mapE_numbers; case_tac c; simp)
  have divf: "if list_all is_number zs
      then (\<exists>ws. mapE (\<lambda>c. cell_div_float c y) zs = Inr ws \<and> list_all is_number ws)
      else mapE (\<lambda>c. cell_div_float c y) zs = Inl TypeError" for zs
    by (rule mapE_numbers; case_tac c; simp)
  have lt: "if list_all is_number zs
      then (\<exists>ws. mapE (\<lambda>c. cell_lt_int c hi) zs = Inr ws \<and> list_all (\<lambda>_. True) ws)
      else mapE (\<lambda>c. cell_lt_int c hi) zs = Inl TypeError" for zs
    by (rule mapE_numbers; case_tac c; simp add: float_of_int_fits [OF hi])
  have gt: "if list_all is_number zs
      then (\<exists>ws. mapE (\<lambda>c. cell_gt_int c lo) zs = Inr ws \<and> list_all (\<lambda>_. True) ws)
      else mapE (\<lambda>c. cell_gt_int c lo) zs = Inl TypeError" for zs
    by (rule mapE_numbers; case_tac c; simp add: float_of_int_fits [OF lo])
  show ?thesis
  proof (cases "list_all is_number ys")
    case True
    with mulf [of ys] obtain ms where ms: "mapE (\<lambda>c. cell_mul_float c x) ys = Inr ms"
      "list_all is_number ms"
      by auto
    with divf [of ms] obtain us where us: "mapE (\<lambda>c. cell_div_float c y) ms = Inr us"
      "list_all is_number us"
      by auto
    from True divf [of ys] obtain ls where ls: "mapE (\<lambda>c. cell_div_float c y) ys = Inr ls"
      "list_all is_number ls"
      by auto
    from us lt [of us] obtain b1 where "mapE (\<lambda>c. cell_lt_int c hi) us = Inr b1"
      by auto
    moreover from ls gt [of ls] obtain b2 where "mapE (\<lambda>c. cell_gt_int c lo) ls = Inr b2"
      by auto
    ultimately show ?thesis
      using Inr ys ms us ls
      by (simp add: lt_int_def gt_int_def div_float_def mul_float_def mul_int_def)
  next
    case False
    with mulf [of ys] divf [of ys]
    have "mapE (\<lambda>c. cell_mul_float c x) ys = Inl TypeError"
      "mapE (\<lambda>c. cell_div_float c y) ys = Inl TypeError"
      by simp_all
    with Inr ys show ?thesis
      by (simp add: lt_int_def gt_int_def div_float_def mul_float_def mul_int_def)
  qed
qed

lemma clean_data_mask_my_module_eq:
  "clean_data_mask_my_module df = filter_data_mask df (float_literal (9 / 10)) (20, 64)"
  unfolding clean_data_mask_my_module_def filter_data_mask_def fst_conv snd_conv
  by (rule and_mask_swap) (rule size_operands_fail_alike [OF small_ints_fit(3) small_ints_fit(2)])

lemma clean_data_mask_mymodule_eq:
  "clean_data_mask_mymodule df = filter_data_mask df (float_literal (9 / 10)) (20, 64)"
  unfolding clean_data_mask_mymodule_def filter_data_mask_def fst_conv snd_conv
  by (rule and_mask_swap) (rule size_operands_fail_alike [OF small_ints_fit(3) small_ints_fit(2)])

lemmas series_eval = getitem_def gt_int_def lt_int_def lt_float_def ge_float_def mul_int_def
  mul_float_def div_float_def or_mask_def f_gt_def f_ge_def

lemma wf_sample_df: "length u = 2 \<Longrightarrow> length p = 2 \<Longrightarrow> wf_df (sample_df u p)"
  by (simp add: wf_df_def sample_df_def nrows_def)

lemma sample_df_keeps: "list_all (has_column (sample_df u p)) cols_to_keep"
  by (simp add: cols_to_keep_def has_column_def sample_df_def)

lemma example_mask:
  "filter_data_mask example_df (float_literal (8 / 10)) (20, 64) = Inr [True, False]"
  by (simp add: filter_data_mask_def example_df_def sample_df_def series_eval float_literals
      float_of_small_ints round_eval)

lemma example_filter:
  "filter_data example_df (float_literal (8 / 10)) (20, 64) = Inr (rows_at example_df [0])"
proof -
  have "wf_df example_df"
    by (simp add: example_df_def wf_sample_df)
  from filter_data_eq [OF this example_mask] show ?thesis
    by (simp add: example_df_def sample_df_keeps positions_def)
qed

section \<open>The claims\<close>

subsection \<open>The sample tables, evaluated\<close>

lemma example_wf: "wf_df example_df"
  by (simp add: example_df_def wf_sample_df)

lemma example_rows:
  assumes "rows_at example_df [0] = rows_at example_df ps"
    and "\<forall>i\<in>set ps. i < nrows example_df"
  shows "ps = [0]"
proof -
  from assms(1) have "map (nth (index example_df)) ps = map (nth (index example_df)) [0]"
    by (simp add: rows_at_def)
  then have ix: "map (nth [I64 0, I64 1]) ps = [I64 0]"
    by (simp add: example_df_def sample_df_def)
  then obtain p where p: "ps = [p]"
    by (cases ps) auto
  with assms(2) have "p < 2"
    by (simp add: nrows_def example_df_def sample_df_def)
  with ix p have "p = 0"
    by (cases p) auto
  with p show ?thesis
    by simp
qed

lemma boundary_wf: "wf_df boundary_df"
  by (simp add: boundary_df_def wf_sample_df)

lemma boundary_mask_13:
  "filter_data_mask boundary_df (float_literal (8 / 10)) (5, 13) = Inr [True, False]"
  by (simp add: filter_data_mask_def boundary_df_def sample_df_def series_eval float_literals
      float_of_int_def int_fits_float64_def round_eval)

lemma boundary_mask_7:
  "filter_data_mask boundary_df (float_literal (8 / 10)) (2, 7) = Inr [False, True]"
  by (simp add: filter_data_mask_def boundary_df_def sample_df_def series_eval float_literals
      float_of_int_def int_fits_float64_def round_eval)

lemma boundary_filter_13:
  "filter_data boundary_df (float_literal (8 / 10)) (5, 13) = Inr (rows_at boundary_df [0])"
  using filter_data_eq [OF boundary_wf boundary_mask_13]
  by (simp add: boundary_df_def sample_df_keeps positions_def)

lemma boundary_filter_7:
  "filter_data boundary_df (float_literal (8 / 10)) (2, 7) = Inr (rows_at boundary_df [1])"
  using filter_data_eq [OF boundary_wf boundary_mask_7]
  by (simp add: boundary_df_def sample_df_keeps positions_def)

lemma text_filter: "filter_data text_df (Finite 2) (20, 64) = Inl TypeError"
  by (simp add: filter_data_def filter_data_mask_def text_df_def sample_df_def series_eval
      float_literals float_of_int_def int_fits_float64_def round_eval)

lemma partial_filter: "filter_data partial_df (float_literal (8 / 10)) (20, 64) = Inl TypeError"
  by (simp add: filter_data_def filter_data_mask_def partial_df_def series_eval
      float_literals float_of_int_def int_fits_float64_def round_eval)

lemma sample_df_required: "list_all (has_column (sample_df u p)) required_columns"
  by (simp add: required_columns_def mask_columns_def cols_to_keep_def has_column_def
      sample_df_def)

lemma example_numeric: "mask_columns_numeric example_df"
  by (simp add: mask_columns_numeric_def mask_columns_def col_def example_df_def sample_df_def)

lemma sample_df_probabilities:
  "list_all in_unit_interval (col (sample_df u p) ''p_cs_debiased'')"
  "list_all in_unit_interval (col (sample_df u p) ''p_el_debiased'')"
  by (simp_all add: col_def sample_df_def float_literals)

lemma example_required: "list_all (has_column example_df) required_columns"
  by (simp add: example_df_def sample_df_required)

lemma example_probabilities:
  "list_all in_unit_interval (col example_df ''p_cs_debiased'')"
  "list_all in_unit_interval (col example_df ''p_el_debiased'')"
  by (simp_all add: example_df_def sample_df_probabilities)

lemma example_overflow:
  "filter_data example_df (Finite 2) (20, beyond_float64) = Inl OverflowError"
  by (simp add: filter_data_def filter_data_mask_def example_df_def sample_df_def series_eval
      float_literals float_of_small_ints beyond_float64_overflows round_eval)

lemma no_ra_wf: "wf_df no_ra_df"
  by (simp add: wf_df_def nrows_def no_ra_df_def example_df_def sample_df_def)

lemma no_ra_missing: "\<not> list_all (has_column no_ra_df) required_columns"
  by (simp add: required_columns_def mask_columns_def cols_to_keep_def has_column_def
      no_ra_df_def example_df_def sample_df_def)

lemma no_ra_numeric: "mask_columns_numeric no_ra_df"
  by (simp add: mask_columns_numeric_def mask_columns_def col_def no_ra_df_def example_df_def
      sample_df_def)

lemma no_ra_filter:
  "filter_data no_ra_df (float_literal (8 / 10)) (20, 64) = Inl (KeyError [''ra''])"
  by (simp add: filter_data_def filter_data_mask_def no_ra_df_def example_df_def sample_df_def
      series_eval float_literals float_of_small_ints round_eval getitem_mask_def
      getitem_list_def nrows_def pick_def cols_to_keep_def)

lemma no_ra_overflow:
  "filter_data no_ra_df (float_literal (8 / 10)) (20, beyond_float64) = Inl OverflowError"
  by (simp add: filter_data_def filter_data_mask_def no_ra_df_def example_df_def sample_df_def
      series_eval float_literals float_of_small_ints beyond_float64_overflows round_eval)

subsection \<open>C1: every returned row passes the photometric and morphology checks\<close>

text \<open>
  Claim C1. For every table with the required columns and every configuration, every
  row of the table that \<open>filter_data\<close> returns satisfies the mask: each of the five
  model magnitudes is greater than \<open>-30\<close>; the magnitude errors are below \<^verbatim>\<open>0.5\<close> (u),
  \<^verbatim>\<open>0.05\<close> (g, r, i) and \<^verbatim>\<open>0.1\<close> (z); and \<^verbatim>\<open>p_cs_debiased >= confidence\<close> or
  \<^verbatim>\<open>p_el_debiased >= confidence\<close>. The returned table no longer has the error columns,
  so the statement reads the values in the input: the result consists of the input rows
  at some positions \<open>ps\<close>, and the checks hold in every one of those rows. The
  thresholds are the float64 values of the literals.
\<close>

theorem filter_data_rows_pass_mask:
  assumes "wf_df df" and "filter_data df confidence size_range = Inr out"
  shows "\<exists>ps. out = rows_at df ps \<and>
     (\<forall>i\<in>set ps. i < nrows df \<and>
        holds (cell_gt_int (cell_at df ''modelMag_u'' i) (- 30)) \<and>
        holds (cell_gt_int (cell_at df ''modelMag_g'' i) (- 30)) \<and>
        holds (cell_gt_int (cell_at df ''modelMag_r'' i) (- 30)) \<and>
        holds (cell_gt_int (cell_at df ''modelMag_i'' i) (- 30)) \<and>
        holds (cell_gt_int (cell_at df ''modelMag_z'' i) (- 30)) \<and>
        holds (cell_lt_float (cell_at df ''modelMagErr_u'' i) (float_literal (5 / 10))) \<and>
        holds (cell_lt_float (cell_at df ''modelMagErr_g'' i) (float_literal (5 / 100))) \<and>
        holds (cell_lt_float (cell_at df ''modelMagErr_r'' i) (float_literal (5 / 100))) \<and>
        holds (cell_lt_float (cell_at df ''modelMagErr_i'' i) (float_literal (5 / 100))) \<and>
        holds (cell_lt_float (cell_at df ''modelMagErr_z'' i) (float_literal (1 / 10))) \<and>
        (holds (cell_ge_float (cell_at df ''p_cs_debiased'' i) confidence) \<or>
         holds (cell_ge_float (cell_at df ''p_el_debiased'' i) confidence)))"
proof -
  from filter_data_row_check [OF assms] obtain ps where out: "out = rows_at df ps"
    and ps: "\<forall>i\<in>set ps. i < nrows df \<and> row_check df confidence size_range i = Inr True"
    by blast
  show ?thesis
  proof (intro exI conjI ballI)
    show "out = rows_at df ps" by (rule out)
  next
    fix i assume "i \<in> set ps"
    with ps have lt: "i < nrows df" and rc: "row_check df confidence size_range i = Inr True"
      by simp_all
    from rc have
      "cell_gt_int (cell_at df ''modelMag_u'' i) (- 30) = Inr True"
      "cell_gt_int (cell_at df ''modelMag_g'' i) (- 30) = Inr True"
      "cell_gt_int (cell_at df ''modelMag_r'' i) (- 30) = Inr True"
      "cell_gt_int (cell_at df ''modelMag_i'' i) (- 30) = Inr True"
      "cell_gt_int (cell_at df ''modelMag_z'' i) (- 30) = Inr True"
      "cell_lt_float (cell_at df ''modelMagErr_u'' i) (float_literal (5 / 10)) = Inr True"
      "cell_lt_float (cell_at df ''modelMagErr_g'' i) (float_literal (5 / 100)) = Inr True"
      "cell_lt_float (cell_at df ''modelMagErr_r'' i) (float_literal (5 / 100)) = Inr True"
      "cell_lt_float (cell_at df ''modelMagErr_i'' i) (float_literal (5 / 100)) = Inr True"
      "cell_lt_float (cell_at df ''modelMagErr_z'' i) (float_literal (1 / 10)) = Inr True"
      and
      "lift2 (\<or>) (cell_ge_float (cell_at df ''p_cs_debiased'' i) confidence)
                 (cell_ge_float (cell_at df ''p_el_debiased'' i) confidence) = Inr True"
      unfolding row_check_def lift2_and_True by simp_all
    then show "i < nrows df" 
        "holds (cell_gt_int (cell_at df ''modelMag_u'' i) (- 30))"
        "holds (cell_gt_int (cell_at df ''modelMag_g'' i) (- 30))"
        "holds (cell_gt_int (cell_at df ''modelMag_r'' i) (- 30))"
        "holds (cell_gt_int (cell_at df ''modelMag_i'' i) (- 30))"
        "holds (cell_gt_int (cell_at df ''modelMag_z'' i) (- 30))"
        "holds (cell_lt_float (cell_at df ''modelMagErr_u'' i) (float_literal (5 / 10)))"
        "holds (cell_lt_float (cell_at df ''modelMagErr_g'' i) (float_literal (5 / 100)))"
        "holds (cell_lt_float (cell_at df ''modelMagErr_r'' i) (float_literal (5 / 100)))"
        "holds (cell_lt_float (cell_at df ''modelMagErr_i'' i) (float_literal (5 / 100)))"
        "holds (cell_lt_float (cell_at df ''modelMagErr_z'' i) (float_literal (1 / 10)))"
        "holds (cell_ge_float (cell_at df ''p_cs_debiased'' i) confidence) \<or>
         holds (cell_ge_float (cell_at df ''p_el_debiased'' i) confidence)"
      using lt by (simp_all add: holds_def lift2_or_True)
  qed
qed
theorem filter_data_rows_pass_mask_witness:
  "wf_df example_df \<and>
   filter_data example_df (float_literal (8 / 10)) (20, 64) = Inr (rows_at example_df [0]) \<and>
   holds (cell_gt_int (cell_at example_df ''modelMag_u'' 0) (- 30)) \<and>
   holds (cell_gt_int (cell_at example_df ''modelMag_g'' 0) (- 30)) \<and>
   holds (cell_gt_int (cell_at example_df ''modelMag_r'' 0) (- 30)) \<and>
   holds (cell_gt_int (cell_at example_df ''modelMag_i'' 0) (- 30)) \<and>
   holds (cell_gt_int (cell_at example_df ''modelMag_z'' 0) (- 30)) \<and>
   holds (cell_lt_float (cell_at example_df ''modelMagErr_u'' 0) (float_literal (5 / 10))) \<and>
   holds (cell_lt_float (cell_at example_df ''modelMagErr_g'' 0) (float_literal (5 / 100))) \<and>
   holds (cell_lt_float (cell_at example_df ''modelMagErr_r'' 0) (float_literal (5 / 100))) \<and>
   holds (cell_lt_float (cell_at example_df ''modelMagErr_i'' 0) (float_literal (5 / 100))) \<and>
   holds (cell_lt_float (cell_at example_df ''modelMagErr_z'' 0) (float_literal (1 / 10))) \<and>
   (holds (cell_ge_float (cell_at example_df ''p_cs_debiased'' 0) (float_literal (8 / 10))) \<or>
    holds (cell_ge_float (cell_at example_df ''p_el_debiased'' 0) (float_literal (8 / 10))))"
proof -
  from filter_data_rows_pass_mask [OF example_wf example_filter]
  obtain ps where eq: "rows_at example_df [0] = rows_at example_df ps"
    and checks: "\<forall>i\<in>set ps. i < nrows example_df \<and>
        holds (cell_gt_int (cell_at example_df ''modelMag_u'' i) (- 30)) \<and>
        holds (cell_gt_int (cell_at example_df ''modelMag_g'' i) (- 30)) \<and>
        holds (cell_gt_int (cell_at example_df ''modelMag_r'' i) (- 30)) \<and>
        holds (cell_gt_int (cell_at example_df ''modelMag_i'' i) (- 30)) \<and>
        holds (cell_gt_int (cell_at example_df ''modelMag_z'' i) (- 30)) \<and>
        holds (cell_lt_float (cell_at example_df ''modelMagErr_u'' i) (float_literal (5 / 10))) \<and>
        holds (cell_lt_float (cell_at example_df ''modelMagErr_g'' i) (float_literal (5 / 100))) \<and>
        holds (cell_lt_float (cell_at example_df ''modelMagErr_r'' i) (float_literal (5 / 100))) \<and>
        holds (cell_lt_float (cell_at example_df ''modelMagErr_i'' i) (float_literal (5 / 100))) \<and>
        holds (cell_lt_float (cell_at example_df ''modelMagErr_z'' i) (float_literal (1 / 10))) \<and>
        (holds (cell_ge_float (cell_at example_df ''p_cs_debiased'' i) (float_literal (8 / 10))) \<or>
         holds (cell_ge_float (cell_at example_df ''p_el_debiased'' i) (float_literal (8 / 10))))"
    by blast
  from checks have "\<forall>i\<in>set ps. i < nrows example_df"
    by blast
  with eq have "ps = [0]"
    by (rule example_rows)
  then have "0 \<in> set ps"
    by simp
  with checks example_wf example_filter show ?thesis
    by blast
qed

subsection \<open>C2: the size band\<close>

text \<open>
  Claim C2, as amended. A row is retained only if both size operands of the mask hold
  for its \<^verbatim>\<open>petroR90_r\<close>, each evaluated in float64 from left to right as the code
  writes it: \<^verbatim>\<open>petroR90_r * 2 / 0.4 > size_range[0]\<close> and
  \<^verbatim>\<open>petroR90_r * 2 * 1.5 / 0.4 < size_range[1]\<close> (the factor 1.5 comes before the
  division). With the default configuration \<open>(20, 64)\<close> and all other checks passing,
  the row with \<^verbatim>\<open>petroR90_r = 5.0\<close> is retained (its diameter is 25) and the same row
  with \<^verbatim>\<open>petroR90_r = 15.0\<close> is rejected (its diameter is 75).
\<close>

theorem filter_data_size_band:
  "(\<forall>df confidence size_range out.
      wf_df df \<longrightarrow> filter_data df confidence size_range = Inr out \<longrightarrow>
      (\<exists>ps. out = rows_at df ps \<and>
         (\<forall>i\<in>set ps. i < nrows df \<and>
            holds (size_lower (cell_at df ''petroR90_r'' i) (fst size_range)) \<and>
            holds (size_upper (cell_at df ''petroR90_r'' i) (snd size_range))))) \<and>
   filter_data example_df (float_literal (8 / 10)) (20, 64) = Inr (rows_at example_df [0]) \<and>
   cell_at example_df ''petroR90_r'' 0 = F64 (Finite 5) \<and>
   diameter (F64 (Finite 5)) = Inr (F64 (Finite 25)) \<and>
   size_lower (F64 (Finite 5)) 20 = Inr True \<and>
   size_upper (F64 (Finite 5)) 64 = Inr True \<and>
   cell_at example_df ''petroR90_r'' 1 = F64 (Finite 15) \<and>
   diameter (F64 (Finite 15)) = Inr (F64 (Finite 75)) \<and>
   size_upper (F64 (Finite 15)) 64 = Inr False"
proof (intro conjI allI impI)
  fix df confidence size_range out
  assume "wf_df df" and "filter_data df confidence size_range = Inr out"
  then show "\<exists>ps. out = rows_at df ps \<and>
         (\<forall>i\<in>set ps. i < nrows df \<and>
            holds (size_lower (cell_at df ''petroR90_r'' i) (fst size_range)) \<and>
            holds (size_upper (cell_at df ''petroR90_r'' i) (snd size_range)))"
    by (rule filter_data_size_checks)
next
  show "filter_data example_df (float_literal (8 / 10)) (20, 64) = Inr (rows_at example_df [0])"
    by (rule example_filter)
next
  show "cell_at example_df ''petroR90_r'' 0 = F64 (Finite 5)"
    "cell_at example_df ''petroR90_r'' 1 = F64 (Finite 15)"
    by (simp_all add: cell_at_def col_def example_df_def sample_df_def)
next
  show "diameter (F64 (Finite 5)) = Inr (F64 (Finite 25))"
    "diameter (F64 (Finite 15)) = Inr (F64 (Finite 75))"
    by (simp_all add: diameter_def float_literals float_of_int_def int_fits_float64_def
        round_eval)
next
  show "size_lower (F64 (Finite 5)) 20 = Inr True"
    by (simp add: size_lower_def f_gt_def float_literals float_of_int_def int_fits_float64_def
        round_eval)
next
  show "size_upper (F64 (Finite 5)) 64 = Inr True"
    "size_upper (F64 (Finite 15)) 64 = Inr False"
    by (simp_all add: size_upper_def float_literals float_of_int_def int_fits_float64_def round_eval)
qed

theorem filter_data_size_band_witness:
  "wf_df example_df \<and>
   filter_data example_df (float_literal (8 / 10)) (20, 64) = Inr (rows_at example_df [0]) \<and>
   holds (size_lower (cell_at example_df ''petroR90_r'' 0) 20) \<and>
   holds (size_upper (cell_at example_df ''petroR90_r'' 0) 64)"
proof -
  from conjunct1 [OF filter_data_size_band] example_wf example_filter
  obtain ps where eq: "rows_at example_df [0] = rows_at example_df ps"
    and checks: "\<forall>i\<in>set ps. i < nrows example_df \<and>
        holds (size_lower (cell_at example_df ''petroR90_r'' i) (fst (20 :: int, 64 :: int))) \<and>
        holds (size_upper (cell_at example_df ''petroR90_r'' i) (snd (20 :: int, 64 :: int)))"
    by blast
  from checks have "\<forall>i\<in>set ps. i < nrows example_df"
    by blast
  with eq have "ps = [0]"
    by (rule example_rows)
  then have "0 \<in> set ps"
    by simp
  with checks have "holds (size_lower (cell_at example_df ''petroR90_r'' 0) 20) \<and>
      holds (size_upper (cell_at example_df ''petroR90_r'' 0) 64)"
    by fastforce
  with example_wf example_filter show ?thesis
    by blast
qed

text \<open>
  The claim as the specification words it, with the diameter \<open>d\<close> computed first and
  \<^verbatim>\<open>d * 1.5\<close> compared with the upper bound, fails at a rounding boundary. With the bounds
  \<open>(5, 13)\<close> the row with \<^verbatim>\<open>petroR90_r = 1.7333333333333332\<close> is retained, yet
  \<^verbatim>\<open>d * 1.5\<close> is \<^verbatim>\<open>13.0\<close> in float64, which is not below 13. Read over the rationals
  instead, the claim fails for the bounds \<open>(2, 7)\<close> at \<^verbatim>\<open>petroR90_r = 0.9333333333333333\<close>:
  the row is retained and \<open>d * 1.5\<close> is not below 7.
\<close>

theorem filter_data_size_band_counterexample:
  "filter_data boundary_df (float_literal (8 / 10)) (5, 13) = Inr (rows_at boundary_df [0]) \<and>
   cell_at boundary_df ''petroR90_r'' 0 = F64 (Finite (7806239354108859 / 4503599627370496)) \<and>
   spec_size_upper (F64 (Finite (7806239354108859 / 4503599627370496))) 13 = Inr False \<and>
   filter_data boundary_df (float_literal (8 / 10)) (2, 7) = Inr (rows_at boundary_df [1]) \<and>
   cell_at boundary_df ''petroR90_r'' 1 = F64 (Finite (4203359652212463 / 4503599627370496)) \<and>
   \<not> (4203359652212463 / 4503599627370496 :: rat) * 2 / (4 / 10) * (15 / 10) < 7"
proof (intro conjI)
  show "filter_data boundary_df (float_literal (8 / 10)) (5, 13) = Inr (rows_at boundary_df [0])"
    by (rule boundary_filter_13)
  show "filter_data boundary_df (float_literal (8 / 10)) (2, 7) = Inr (rows_at boundary_df [1])"
    by (rule boundary_filter_7)
  show "cell_at boundary_df ''petroR90_r'' 0 = F64 (Finite (7806239354108859 / 4503599627370496))"
    "cell_at boundary_df ''petroR90_r'' 1 = F64 (Finite (4203359652212463 / 4503599627370496))"
    by (simp_all add: cell_at_def col_def boundary_df_def sample_df_def)
  show "spec_size_upper (F64 (Finite (7806239354108859 / 4503599627370496))) 13 = Inr False"
    by (simp add: spec_size_upper_def diameter_def float_literals float_of_int_def
        int_fits_float64_def round_eval)
  show "\<not> (4203359652212463 / 4503599627370496 :: rat) * 2 / (4 / 10) * (15 / 10) < 7"
    by simp
qed

subsection \<open>C3: coercion is all-or-nothing and never raises\<close>

text \<open>
  Claim C3. \<open>safe_to_numeric\<close> returns for every column, whatever the parser does: no
  exception reaches the caller. If a single element fails to parse, the column comes
  back as it was: the same elements in the same order.
\<close>

theorem safe_to_numeric_all_or_nothing:
  "(\<exists>r. safe_to_numeric parse c = Inr r) \<and>
   ((\<exists>x\<in>set c. parse_cell parse x = None) \<longrightarrow> safe_to_numeric parse c = Inr c)"
proof
  show "\<exists>r. safe_to_numeric parse c = Inr r"
    using safe_to_numeric_length [of parse c] by blast
  show "(\<exists>x\<in>set c. parse_cell parse x = None) \<longrightarrow> safe_to_numeric parse c = Inr c"
  proof
    assume "\<exists>x\<in>set c. parse_cell parse x = None"
    then obtain x where x: "x \<in> set c" "parse_cell parse x = None"
      by blast
    have "\<nexists>r. to_numeric parse c = Inr r"
    proof
      assume "\<exists>r. to_numeric parse c = Inr r"
      then obtain ns where "list_all2 (\<lambda>x n. parse_cell parse x = Some n) c ns"
        by (auto simp: to_numeric_Inr)
      with x(1) obtain n where "parse_cell parse x = Some n"
        by (auto simp: list_all2_conv_all_nth in_set_conv_nth)
      with x(2) show False by simp
    qed
    then show "safe_to_numeric parse c = Inr c"
      by (cases "to_numeric parse c") (auto simp: safe_to_numeric_def)
  qed
qed

theorem safe_to_numeric_all_or_nothing_witness:
  "parse_cell sample_parse (Str ''x'') = None \<and>
   safe_to_numeric sample_parse [Str ''1'', Str ''x''] = Inr [Str ''1'', Str ''x'']"
proof -
  have none: "parse_cell sample_parse (Str ''x'') = None"
    by (simp add: sample_parse_def)
  then have "\<exists>x\<in>set [Str ''1'', Str ''x'']. parse_cell sample_parse x = None"
    by simp
  with safe_to_numeric_all_or_nothing [of sample_parse "[Str ''1'', Str ''x'']"] none
  show ?thesis
    by blast
qed

subsection \<open>C4: the fixed projection\<close>

text \<open>
  Claim C4, as amended. Whatever other columns the input has, the table returned by
  \<open>filter_data\<close> has exactly the fixed projection in the stated order: identifiers,
  position, morphology probabilities and class scores, the two size measures, the five
  model magnitudes and the five extinction values. These are 20 columns (2 + 2 + 2 + 2 +
  2 + 5 + 5), not 18, and none of the five magnitude-error columns is among them.
\<close>

theorem filter_data_fixed_projection:
  assumes "filter_data df confidence size_range = Inr out"
  shows "map fst (columns out) =
           [''specobjid'', ''objid'', ''ra'', ''dec'', ''p_el_debiased'', ''p_cs_debiased'',
            ''spiral'', ''elliptical'', ''petroR50_r'', ''petroR90_r'',
            ''modelMag_u'', ''modelMag_g'', ''modelMag_r'', ''modelMag_i'', ''modelMag_z'',
            ''extinction_u'', ''extinction_g'', ''extinction_r'', ''extinction_i'',
            ''extinction_z''] \<and>
         length (columns out) = 20 \<and>
         list_all (\<lambda>b. ''modelMagErr_'' @ [b] \<notin> set (map fst (columns out))) ''ugriz''"
proof -
  have "length (columns out) = length (map fst (columns out))"
    by simp
  then show ?thesis
    unfolding filter_data_columns_keep [OF assms] by (simp add: cols_to_keep_def)
qed

theorem filter_data_fixed_projection_witness:
  "filter_data example_df (float_literal (8 / 10)) (20, 64) = Inr (rows_at example_df [0]) \<and>
   has_column example_df ''nvote'' \<and>
   map fst (columns (rows_at example_df [0])) =
     [''specobjid'', ''objid'', ''ra'', ''dec'', ''p_el_debiased'', ''p_cs_debiased'',
      ''spiral'', ''elliptical'', ''petroR50_r'', ''petroR90_r'',
      ''modelMag_u'', ''modelMag_g'', ''modelMag_r'', ''modelMag_i'', ''modelMag_z'',
      ''extinction_u'', ''extinction_g'', ''extinction_r'', ''extinction_i'',
      ''extinction_z''] \<and>
   length (columns (rows_at example_df [0])) = 20"
proof -
  have "has_column example_df ''nvote''"
    by (simp add: has_column_def example_df_def sample_df_def)
  with filter_data_fixed_projection [OF example_filter] example_filter show ?thesis
    by blast
qed

text \<open>The claim as stated fails: the table returned for the sample has 20 columns.\<close>

theorem filter_data_fixed_projection_counterexample:
  "filter_data example_df (float_literal (8 / 10)) (20, 64) = Inr (rows_at example_df [0]) \<and>
   length (columns (rows_at example_df [0])) \<noteq> 18"
proof
  show "filter_data example_df (float_literal (8 / 10)) (20, 64) = Inr (rows_at example_df [0])"
    by (rule example_filter)
  show "length (columns (rows_at example_df [0])) \<noteq> 18"
    by (simp add: rows_at_def cols_to_keep_def)
qed

subsection \<open>C5: filtering twice\<close>

text \<open>
  Claim C5, as amended. The table returned by \<open>filter_data\<close> cannot be filtered again:
  the projection has dropped the magnitude-error columns that the mask reads, so a second
  call with the same configuration fails with the missing-field error for
  \<^verbatim>\<open>modelMagErr_u\<close>. The row selection alone is idempotent: on the rows \<^verbatim>\<open>df[mask]\<close>,
  before the projection, the mask of the same configuration is true everywhere and
  selects all of them again.
\<close>

theorem filter_data_twice:
  assumes "wf_df df" and "filter_data df confidence size_range = Inr out"
  shows "filter_data out confidence size_range = Inl (KeyError [''modelMagErr_u'']) \<and>
     (\<exists>m sel. filter_data_mask df confidence size_range = Inr m \<and>
        getitem_mask df m = Inr sel \<and>
        filter_data_mask sel confidence size_range = Inr (replicate (nrows sel) True) \<and>
        getitem_mask sel (replicate (nrows sel) True) = Inr sel)"
proof
  show "filter_data out confidence size_range = Inl (KeyError [''modelMagErr_u''])"
    using assms by (rule filter_data_again)
  from assms(2) obtain m sel where m: "filter_data_mask df confidence size_range = Inr m"
    and sel: "getitem_mask df m = Inr sel"
    by (auto simp: filter_data_def bindE_eq_Inr)
  from selection_idempotent [OF assms(1) m sel] m sel
  show "\<exists>m sel. filter_data_mask df confidence size_range = Inr m \<and>
        getitem_mask df m = Inr sel \<and>
        filter_data_mask sel confidence size_range = Inr (replicate (nrows sel) True) \<and>
        getitem_mask sel (replicate (nrows sel) True) = Inr sel"
    by blast
qed

theorem filter_data_twice_witness:
  "wf_df example_df \<and>
   filter_data example_df (float_literal (8 / 10)) (20, 64) = Inr (rows_at example_df [0]) \<and>
   filter_data (rows_at example_df [0]) (float_literal (8 / 10)) (20, 64)
     = Inl (KeyError [''modelMagErr_u''])"
  using filter_data_twice [OF example_wf example_filter] example_wf example_filter by blast

text \<open>The claim as stated fails: the second call returns no table.\<close>

theorem filter_data_twice_counterexample:
  "filter_data example_df (float_literal (8 / 10)) (20, 64) = Inr (rows_at example_df [0]) \<and>
   filter_data (rows_at example_df [0]) (float_literal (8 / 10)) (20, 64)
     \<noteq> Inr (rows_at example_df [0])"
  using filter_data_again [OF example_wf example_filter] example_filter by simp

subsection \<open>C6: the success branch of the coercion\<close>

text \<open>
  Claim C6 is about the numbers that \<^verbatim>\<open>pd.to_numeric\<close> produces: \<open>safe_to_numeric\<close> adds
  nothing to them, it returns the result as it is. The docstring of \<open>safe_to_numeric\<close>
  promises a column of numeric type, int or float, whenever the whole column parses. For
  a string that denotes an integer beyond the int64 range, such as
  \<^verbatim>\<open>"18446744073709551616"\<close>, the result of \<^verbatim>\<open>pd.to_numeric\<close> is not a column of int64 or
  float64 values, and it is not a column of this model either. No theorem about the
  success branch is stated here.
\<close>

subsection \<open>C7: a missing column\<close>

text \<open>
  Claim C7, as amended. When a required column is absent, \<open>filter_data\<close> returns no
  table: it fails. The failure is the missing-field error, naming absent required
  columns only, whenever the columns that the mask reads and that are present hold
  numbers and both size bounds can be converted to float64.
\<close>

theorem filter_data_missing_column:
  assumes "\<not> list_all (has_column df) required_columns"
  shows "(\<exists>e. filter_data df confidence size_range = Inl e) \<and>
         (wf_df df \<and> mask_columns_numeric df \<and>
          int_fits_float64 (fst size_range) \<and> int_fits_float64 (snd size_range) \<longrightarrow>
            (\<exists>ns. filter_data df confidence size_range = Inl (KeyError ns) \<and> ns \<noteq> [] \<and>
                  list_all (\<lambda>n. n \<in> set required_columns \<and> \<not> has_column df n) ns))"
proof (intro conjI impI)
  show "\<exists>e. filter_data df confidence size_range = Inl e"
    using assms filter_data_has_columns [of df confidence size_range]
    by (cases "filter_data df confidence size_range") auto
next
  assume "wf_df df \<and> mask_columns_numeric df \<and>
      int_fits_float64 (fst size_range) \<and> int_fits_float64 (snd size_range)"
  then have wf: "wf_df df" and num: "mask_columns_numeric df"
    and lo: "int_fits_float64 (fst size_range)" and hi: "int_fits_float64 (snd size_range)"
    by simp_all
  from filter_data_mask_key_or_ok [OF wf num lo hi, of confidence]
  consider m where "filter_data_mask df confidence size_range = Inr m"
    | n where "n \<in> set mask_columns" "\<not> has_column df n"
        "filter_data_mask df confidence size_range = Inl (KeyError [n])"
    by (auto simp: key_or_ok_def)
  then show "\<exists>ns. filter_data df confidence size_range = Inl (KeyError ns) \<and> ns \<noteq> [] \<and>
      list_all (\<lambda>n. n \<in> set required_columns \<and> \<not> has_column df n) ns"
  proof cases
    case 1
    have "computes (nrows df) (row_check df confidence size_range)
            (filter_data_mask df confidence size_range)"
      using wf filter_data_mask_has_columns [OF 1] by (rule filter_data_mask_computes)
    from computesD [OF this 1] have len: "length m = nrows df"
      by simp
    define sel where "sel = \<lparr>index = pick m (index df),
        columns = map (\<lambda>c. (fst c, pick m (snd c))) (columns df)\<rparr>"
    have sel: "getitem_mask df m = Inr sel"
      by (simp add: getitem_mask_Inr len sel_def)
    define ns where "ns = filter (\<lambda>n. map_of (columns sel) n = None) cols_to_keep"
    have ns_iff: "n \<in> set ns \<longleftrightarrow> n \<in> set cols_to_keep \<and> \<not> has_column df n" for n
      using has_column_getitem_mask [OF sel, of n] by (auto simp: ns_def has_column_def)
    from assms filter_data_mask_has_columns [OF 1]
    obtain n where "n \<in> set cols_to_keep" "\<not> has_column df n"
      by (auto simp: required_columns_def list_all_iff)
    then have "ns \<noteq> []"
      using ns_iff [of n] by auto
    then have "filter_data df confidence size_range = Inl (KeyError ns)"
      using 1 sel by (simp add: filter_data_def getitem_list_def ns_def)
    moreover have "list_all (\<lambda>n. n \<in> set required_columns \<and> \<not> has_column df n) ns"
      using ns_iff by (auto simp: list_all_iff required_columns_def)
    ultimately show ?thesis
      using \<open>ns \<noteq> []\<close> by blast
  next
    case 2
    then have "filter_data df confidence size_range = Inl (KeyError [n])"
      by (simp add: filter_data_def)
    with 2 show ?thesis
      by (intro exI [of _ "[n]"]) (simp add: required_columns_def)
  qed
qed

theorem filter_data_missing_column_witness:
  "\<not> list_all (has_column no_ra_df) required_columns \<and>
   wf_df no_ra_df \<and> mask_columns_numeric no_ra_df \<and>
   int_fits_float64 20 \<and> int_fits_float64 64 \<and>
   (\<exists>e. filter_data no_ra_df (float_literal (8 / 10)) (20, 64) = Inl e) \<and>
   (\<exists>ns. filter_data no_ra_df (float_literal (8 / 10)) (20, 64) = Inl (KeyError ns) \<and>
      ns \<noteq> [] \<and> list_all (\<lambda>n. n \<in> set required_columns \<and> \<not> has_column no_ra_df n) ns) \<and>
   filter_data no_ra_df (float_literal (8 / 10)) (20, 64) = Inl (KeyError [''ra''])"
  using filter_data_missing_column [OF no_ra_missing, of "float_literal (8 / 10)" "(20, 64)",
      unfolded fst_conv snd_conv]
    no_ra_missing no_ra_wf no_ra_numeric small_ints_fit(2,3) no_ra_filter
  by blast

text \<open>
  The claim as stated fails, in two ways. In a table that lacks required columns and
  whose \<^verbatim>\<open>modelMag_u\<close> is text, the first comparison raises a type error. In a table of
  numbers that lacks the column \<^verbatim>\<open>ra\<close> only, an upper size bound of \<^verbatim>\<open>2 ** 1024\<close> makes
  the mask raise an overflow error, before the kept columns are selected.
\<close>

theorem filter_data_missing_column_counterexample:
  "\<not> list_all (has_column partial_df) required_columns \<and>
   filter_data partial_df (float_literal (8 / 10)) (20, 64) = Inl TypeError \<and>
   \<not> list_all (has_column no_ra_df) required_columns \<and>
   filter_data no_ra_df (float_literal (8 / 10)) (20, beyond_float64) = Inl OverflowError"
proof (intro conjI)
  show "\<not> list_all (has_column partial_df) required_columns"
    by (simp add: required_columns_def mask_columns_def has_column_def partial_df_def)
  show "filter_data partial_df (float_literal (8 / 10)) (20, 64) = Inl TypeError"
    by (rule partial_filter)
  show "\<not> list_all (has_column no_ra_df) required_columns"
    by (rule no_ra_missing)
  show "filter_data no_ra_df (float_literal (8 / 10)) (20, beyond_float64) = Inl OverflowError"
    by (rule no_ra_overflow)
qed

subsection \<open>C8: structure of the results\<close>

text \<open>
  Claim C8. The table returned by \<open>filter_data\<close> consists of input rows at strictly
  increasing positions: a selection of the input rows in their original order, no row
  twice, every retained value (index and kept columns) as it was in the input. The
  column returned by \<open>safe_to_numeric\<close> is as long as its input.
\<close>

theorem filter_data_structure:
  "(\<forall>df confidence size_range out.
      wf_df df \<longrightarrow> filter_data df confidence size_range = Inr out \<longrightarrow>
      (\<exists>ps. sorted_wrt (<) ps \<and> (\<forall>i\<in>set ps. i < nrows df) \<and> out = rows_at df ps)) \<and>
   (\<forall>parse c. \<exists>r. safe_to_numeric parse c = Inr r \<and> length r = length c)"
proof (intro conjI allI impI)
  fix df confidence size_range out
  assume "wf_df df" and "filter_data df confidence size_range = Inr out"
  from filter_data_row_check [OF this]
  show "\<exists>ps. sorted_wrt (<) ps \<and> (\<forall>i\<in>set ps. i < nrows df) \<and> out = rows_at df ps"
    by blast
next
  fix parse c
  show "\<exists>r. safe_to_numeric parse c = Inr r \<and> length r = length c"
    by (rule safe_to_numeric_length)
qed

theorem filter_data_structure_witness:
  "wf_df example_df \<and>
   filter_data example_df (float_literal (8 / 10)) (20, 64) = Inr (rows_at example_df [0]) \<and>
   (\<exists>ps. sorted_wrt (<) ps \<and> rows_at example_df [0] = rows_at example_df ps) \<and>
   (\<exists>r. safe_to_numeric sample_parse [Str ''1'', Str ''x''] = Inr r \<and>
        length r = length [Str ''1'', Str ''x''])"
  using filter_data_structure example_wf example_filter by blast

subsection \<open>C9: a confidence above one\<close>

text \<open>
  Claim C9, as amended. The configuration is not validated. For a table with all
  required columns, whose columns read by the mask hold numbers and whose probabilities
  \<^verbatim>\<open>p_cs_debiased\<close> and \<^verbatim>\<open>p_el_debiased\<close> lie in \<open>[0, 1]\<close>, and for size bounds that can
  be converted to float64, a confidence greater than 1 yields the empty table with the
  kept columns, and no error.
\<close>

theorem filter_data_confidence_above_one:
  assumes wf: "wf_df df" and req: "list_all (has_column df) required_columns"
    and num: "mask_columns_numeric df"
    and cs: "list_all in_unit_interval (col df ''p_cs_debiased'')"
    and el: "list_all in_unit_interval (col df ''p_el_debiased'')"
    and conf: "f_gt confidence (Finite 1)"
    and lo: "int_fits_float64 (fst size_range)" and hi: "int_fits_float64 (snd size_range)"
  shows "filter_data df confidence size_range = Inr (rows_at df []) \<and> nrows (rows_at df []) = 0"
proof -
  from req have mask_cols: "list_all (has_column df) mask_columns"
    and keep: "list_all (has_column df) cols_to_keep"
    by (simp_all add: required_columns_def)
  have comp: "computes (nrows df) (row_check df confidence size_range)
      (filter_data_mask df confidence size_range)"
    using wf mask_cols by (rule filter_data_mask_computes)
  have row: "row_check df confidence size_range i = Inr False" if "i < nrows df" for i
  proof -
    have n: "is_number (cell_at df name i)" if "name \<in> set mask_columns" for name
      using wf num that _ \<open>i < nrows df\<close>
      by (rule numeric_cell_at) (use mask_cols that in \<open>simp add: list_all_iff\<close>)
    have len: "length (col df ''p_cs_debiased'') = nrows df"
      "length (col df ''p_el_debiased'') = nrows df"
      using mask_cols wf by (simp_all add: mask_columns_present wf_df_col_length)
    with cs el that have "in_unit_interval (cell_at df ''p_cs_debiased'' i)"
      "in_unit_interval (cell_at df ''p_el_debiased'' i)"
      by (simp_all add: cell_at_def list_all_length)
    then have p: "cell_ge_float (cell_at df ''p_cs_debiased'' i) confidence = Inr False"
      "cell_ge_float (cell_at df ''p_el_debiased'' i) confidence = Inr False"
      using conf by (simp_all add: probability_below)
    have "\<exists>b. lift2 (\<and>) (lift2 (\<and>) (lift2 (\<and>) (lift2 (\<and>) (lift2 (\<and>) (lift2 (\<and>)
      (lift2 (\<and>) (lift2 (\<and>) (lift2 (\<and>)
       (cell_gt_int (cell_at df ''modelMag_u'' i) (- 30))
       (cell_gt_int (cell_at df ''modelMag_g'' i) (- 30)))
       (cell_gt_int (cell_at df ''modelMag_r'' i) (- 30)))
       (cell_gt_int (cell_at df ''modelMag_i'' i) (- 30)))
       (cell_gt_int (cell_at df ''modelMag_z'' i) (- 30)))
       (cell_lt_float (cell_at df ''modelMagErr_u'' i) (float_literal (5 / 10))))
       (cell_lt_float (cell_at df ''modelMagErr_g'' i) (float_literal (5 / 100))))
       (cell_lt_float (cell_at df ''modelMagErr_r'' i) (float_literal (5 / 100))))
       (cell_lt_float (cell_at df ''modelMagErr_i'' i) (float_literal (5 / 100))))
       (cell_lt_float (cell_at df ''modelMagErr_z'' i) (float_literal (1 / 10))) = Inr b"
      by (intro lift2_total cell_checks_total n) (simp_all add: mask_columns_def small_ints_fit)
    then obtain x where x: "lift2 (\<and>) (lift2 (\<and>) (lift2 (\<and>) (lift2 (\<and>) (lift2 (\<and>) (lift2 (\<and>)
      (lift2 (\<and>) (lift2 (\<and>) (lift2 (\<and>)
       (cell_gt_int (cell_at df ''modelMag_u'' i) (- 30))
       (cell_gt_int (cell_at df ''modelMag_g'' i) (- 30)))
       (cell_gt_int (cell_at df ''modelMag_r'' i) (- 30)))
       (cell_gt_int (cell_at df ''modelMag_i'' i) (- 30)))
       (cell_gt_int (cell_at df ''modelMag_z'' i) (- 30)))
       (cell_lt_float (cell_at df ''modelMagErr_u'' i) (float_literal (5 / 10))))
       (cell_lt_float (cell_at df ''modelMagErr_g'' i) (float_literal (5 / 100))))
       (cell_lt_float (cell_at df ''modelMagErr_r'' i) (float_literal (5 / 100))))
       (cell_lt_float (cell_at df ''modelMagErr_i'' i) (float_literal (5 / 100))))
       (cell_lt_float (cell_at df ''modelMagErr_z'' i) (float_literal (1 / 10))) = Inr x" ..
    obtain l where l: "size_lower (cell_at df ''petroR90_r'' i) (fst size_range) = Inr l"
      using cell_checks_total(4) [OF n [of "''petroR90_r''"] lo] by (auto simp: mask_columns_def)
    obtain u where u: "size_upper (cell_at df ''petroR90_r'' i) (snd size_range) = Inr u"
      using cell_checks_total(5) [OF n [of "''petroR90_r''"] hi] by (auto simp: mask_columns_def)
    show ?thesis
      unfolding row_check_def x p l u by simp
  qed
  have "filter_data_mask df confidence size_range = Inr (replicate (nrows df) False)"
    using comp by (rule computesI) (simp_all add: row)
  from filter_data_eq [OF wf this keep]
  have "filter_data df confidence size_range = Inr (rows_at df [])"
    by (simp add: positions_def)
  then show ?thesis
    by (simp add: rows_at_def nrows_def)
qed

theorem filter_data_confidence_above_one_witness:
  "wf_df example_df \<and> list_all (has_column example_df) required_columns \<and>
   mask_columns_numeric example_df \<and>
   list_all in_unit_interval (col example_df ''p_cs_debiased'') \<and>
   list_all in_unit_interval (col example_df ''p_el_debiased'') \<and>
   f_gt (Finite 2) (Finite 1) \<and> int_fits_float64 20 \<and> int_fits_float64 64 \<and>
   filter_data example_df (Finite 2) (20, 64) = Inr (rows_at example_df []) \<and>
   nrows (rows_at example_df []) = 0"
proof -
  have conf: "f_gt (Finite 2) (Finite 1)"
    by (simp add: f_gt_def)
  have lo: "int_fits_float64 (fst (20 :: int, 64 :: int))"
    and hi: "int_fits_float64 (snd (20 :: int, 64 :: int))"
    by (simp_all add: small_ints_fit)
  from filter_data_confidence_above_one [OF example_wf example_required example_numeric
      example_probabilities conf lo hi]
    example_wf example_required example_numeric example_probabilities conf small_ints_fit(2,3)
  show ?thesis
    by blast
qed

text \<open>
  The claim as stated fails, in two ways. The sample with a text-valued \<^verbatim>\<open>modelMag_u\<close> has
  all required columns and probabilities in \<open>[0, 1]\<close>, and the call raises a type error.
  On the docstring table itself, an upper size bound of \<^verbatim>\<open>2 ** 1024\<close> makes the call raise
  an overflow error: the bound is not validated either, and the comparison cannot
  convert it.
\<close>

theorem filter_data_confidence_above_one_counterexample:
  "wf_df text_df \<and> list_all (has_column text_df) required_columns \<and>
   list_all in_unit_interval (col text_df ''p_cs_debiased'') \<and>
   list_all in_unit_interval (col text_df ''p_el_debiased'') \<and>
   f_gt (Finite 2) (Finite 1) \<and>
   filter_data text_df (Finite 2) (20, 64) = Inl TypeError \<and>
   wf_df example_df \<and> list_all (has_column example_df) required_columns \<and>
   mask_columns_numeric example_df \<and>
   list_all in_unit_interval (col example_df ''p_cs_debiased'') \<and>
   list_all in_unit_interval (col example_df ''p_el_debiased'') \<and>
   filter_data example_df (Finite 2) (20, beyond_float64) = Inl OverflowError"
proof (intro conjI)
  show "wf_df text_df"
    by (simp add: text_df_def wf_sample_df)
  show "list_all (has_column text_df) required_columns"
    by (simp add: text_df_def sample_df_required)
  show "list_all in_unit_interval (col text_df ''p_cs_debiased'')"
    "list_all in_unit_interval (col text_df ''p_el_debiased'')"
    by (simp_all add: text_df_def sample_df_probabilities)
  show "f_gt (Finite 2) (Finite 1)"
    by (simp add: f_gt_def)
  show "filter_data text_df (Finite 2) (20, 64) = Inl TypeError"
    by (rule text_filter)
  show "wf_df example_df"
    by (rule example_wf)
  show "list_all (has_column example_df) required_columns"
    by (rule example_required)
  show "mask_columns_numeric example_df"
    by (rule example_numeric)
  show "list_all in_unit_interval (col example_df ''p_cs_debiased'')"
    "list_all in_unit_interval (col example_df ''p_el_debiased'')"
    by (rule example_probabilities)+
  show "filter_data example_df (Finite 2) (20, beyond_float64) = Inl OverflowError"
    by (rule example_overflow)
qed

subsection \<open>C10: the copies agree with the filter\<close>

text \<open>
  Claim C10. On every table, \<open>clean_data\<close> of \<^verbatim>\<open>my_module.py\<close> and \<open>clean_data\<close> of
  \<^verbatim>\<open>mymodule.py\<close> return what \<open>filter_data\<close> returns for \<^verbatim>\<open>confidence = 0.9\<close> and
  \<^verbatim>\<open>size_range = (20, 64)\<close>: the same table, or the same kind of error. Testing the
  upper size bound before the lower one changes nothing, since both operands read the
  same column and fail on the same columns.
\<close>

theorem clean_data_equals_filter_data:
  "clean_data_my_module df = filter_data df (float_literal (9 / 10)) (20, 64) \<and>
   clean_data_mymodule df = filter_data df (float_literal (9 / 10)) (20, 64)"
  by (simp add: clean_data_my_module_def clean_data_mymodule_def filter_data_def
      clean_data_mask_my_module_eq clean_data_mask_mymodule_eq)

end
